theory Spec2Isabelle
  imports Main
begin

section \<open>run\_stockfish\_analysis.py: a shallow embedding\<close>

text \<open>
  The script \<^verbatim>\<open>.github/analysis/run_stockfish_analysis.py\<close> is sequential glue around two
  collaborators (\<^verbatim>\<open>ChessService\<close>, \<^verbatim>\<open>AnalyticsService\<close>) and the Python runtime. The
  model makes every effect explicit: a run is the list of events it causes, in order,
  together with the value it returns or the exception it raises. Everything the script
  calls but does not define (the collaborators, \<^verbatim>\<open>datetime.strptime\<close>,
  \<^verbatim>\<open>datetime.fromtimestamp\<close>, \<^verbatim>\<open>str\<close>, number formatting, the file system, the clock)
  is a field of the record \<open>world\<close>, so that every theorem holds for every behaviour of
  these parts.
\<close>

subsection \<open>Python values and exceptions\<close>

text \<open>
  The values that game records and the analysis result are built from. Floating point
  numbers are left out of the value type; the operations whose result depends on them
  (\<^verbatim>\<open>str\<close>, the format \<^verbatim>\<open>.1f\<close>) are fields of \<open>world\<close>. A dict is an association list
  in insertion order; a game record is a dict.
\<close>

datatype pyval =
    PNone
  | PBool bool
  | PInt int
  | PStr string
  | PList "pyval list"
  | PDict "(string \<times> pyval) list"

type_synonym pydict = "(string \<times> pyval) list"

type_synonym game = "(string \<times> pyval) list"

text \<open>
  An instance of a subclass of \<^verbatim>\<open>Exception\<close>: its class name and \<^verbatim>\<open>str(e)\<close>. Both
  \<^verbatim>\<open>except\<close> clauses of the script catch \<^verbatim>\<open>Exception\<close>; signals that derive from
  \<^verbatim>\<open>BaseException\<close> only (\<^verbatim>\<open>KeyboardInterrupt\<close>, \<^verbatim>\<open>SystemExit\<close>) are outside the model.
\<close>

datatype exn = Exn (exn_class: string) (exn_str: string)

definition quoted :: "string \<Rightarrow> string" where
  "quoted s = CHR 0x27 # s @ [CHR 0x27]"

definition newline :: string where
  "newline = [CHR 0x0A]"

text \<open>The marks U+2713 and U+2717 of the script's messages, in UTF-8.\<close>

definition check_mark :: string where
  "check_mark = [CHR 0xE2, CHR 0x9C, CHR 0x93]"

definition cross_mark :: string where
  "cross_mark = [CHR 0xE2, CHR 0x9C, CHR 0x97]"

fun type_name :: "pyval \<Rightarrow> string" where
  "type_name PNone = ''NoneType''"
| "type_name (PBool b) = ''bool''"
| "type_name (PInt n) = ''int''"
| "type_name (PStr s) = ''str''"
| "type_name (PList xs) = ''list''"
| "type_name (PDict d) = ''dict''"

text \<open>\<^verbatim>\<open>d.get(k, default)\<close> on a dict.\<close>

definition dict_get :: "pydict \<Rightarrow> string \<Rightarrow> pyval \<Rightarrow> pyval" where
  "dict_get d k dflt = (case map_of d k of None \<Rightarrow> dflt | Some v \<Rightarrow> v)"

text \<open>\<^verbatim>\<open>d[k]\<close> on a dict: \<^verbatim>\<open>KeyError\<close> when the key is missing.\<close>

definition dict_index :: "pydict \<Rightarrow> string \<Rightarrow> exn + pyval" where
  "dict_index d k =
     (case map_of d k of None \<Rightarrow> Inl (Exn ''KeyError'' (quoted k)) | Some v \<Rightarrow> Inr v)"

text \<open>
  Looking up the method \<^verbatim>\<open>get\<close> of a value: of the values modelled only a dict has it,
  any other raises \<^verbatim>\<open>AttributeError\<close>.
\<close>

fun attr_get :: "pyval \<Rightarrow> exn + pydict" where
  "attr_get (PDict d) = Inr d"
| "attr_get v =
     Inl (Exn ''AttributeError'' (quoted (type_name v) @ '' object has no attribute '' @ quoted ''get''))"

text \<open>\<^verbatim>\<open>v > 0\<close>: defined on numbers (\<^verbatim>\<open>bool\<close> is a subclass of \<^verbatim>\<open>int\<close>), \<^verbatim>\<open>TypeError\<close> otherwise.\<close>

fun py_gt0 :: "pyval \<Rightarrow> exn + bool" where
  "py_gt0 (PInt n) = Inr (0 < n)"
| "py_gt0 (PBool b) = Inr b"
| "py_gt0 v =
     Inl (Exn ''TypeError'' (quoted ''>'' @ '' not supported between instances of ''
            @ quoted (type_name v) @ '' and '' @ quoted ''int''))"

subsection \<open>Decimal numbers in messages\<close>

fun str_nat :: "nat \<Rightarrow> string" where
  "str_nat n = (if n < 10 then [''0123456789'' ! n]
                else str_nat (n div 10) @ [''0123456789'' ! (n mod 10)])"

declare str_nat.simps [simp del]

definition str_int :: "int \<Rightarrow> string" where
  "str_int i = (if i < 0 then CHR ''-'' # str_nat (nat (- i)) else str_nat (nat i))"

text \<open>\<^verbatim>\<open>s.zfill(w)\<close> for a string of digits.\<close>

definition zfill :: "nat \<Rightarrow> string \<Rightarrow> string" where
  "zfill w s = replicate (w - length s) CHR ''0'' @ s"

subsection \<open>Naive datetimes\<close>

record datetime =
  year :: int
  month :: int
  day :: int
  hour :: int
  minute :: int
  second :: int
  microsecond :: int

text \<open>Python compares naive datetimes field by field, the year first.\<close>

fun lex_le :: "int list \<Rightarrow> int list \<Rightarrow> bool" where
  "lex_le [] ys = True"
| "lex_le (x # xs) [] = False"
| "lex_le (x # xs) (y # ys) = (x < y \<or> (x = y \<and> lex_le xs ys))"

definition dt_fields :: "datetime \<Rightarrow> int list" where
  "dt_fields d = [year d, month d, day d, hour d, minute d, second d, microsecond d]"

definition dt_le :: "datetime \<Rightarrow> datetime \<Rightarrow> bool" where
  "dt_le a b = lex_le (dt_fields a) (dt_fields b)"

definition is_leap :: "int \<Rightarrow> bool" where
  "is_leap y = (y mod 4 = 0 \<and> (y mod 400 = 0 \<or> y mod 100 \<noteq> 0))"

definition days_in_month :: "int \<Rightarrow> int \<Rightarrow> int" where
  "days_in_month y m =
     (if m = 2 then (if is_leap y then 29 else 28)
      else if m = 4 \<or> m = 6 \<or> m = 9 \<or> m = 11 then 30 else 31)"

text \<open>
  The check every \<^verbatim>\<open>datetime\<close> constructor makes on a date: year, then month, then
  day; each failure is a \<^verbatim>\<open>ValueError\<close>.
\<close>

definition check_date_fields :: "int \<Rightarrow> int \<Rightarrow> int \<Rightarrow> exn option" where
  "check_date_fields y m d =
     (if y < 1 \<or> 9999 < y then Some (Exn ''ValueError'' (''year '' @ str_int y @ '' is out of range''))
      else if m < 1 \<or> 12 < m then Some (Exn ''ValueError'' ''month must be in 1..12'')
      else if d < 1 \<or> days_in_month y m < d then Some (Exn ''ValueError'' ''day is out of range for month'')
      else None)"

text \<open>\<^verbatim>\<open>d.replace(year=y, month=m)\<close>: the other fields are kept, the new date is checked.\<close>

definition dt_replace :: "datetime \<Rightarrow> int \<Rightarrow> int \<Rightarrow> exn + datetime" where
  "dt_replace d y m =
     (case check_date_fields y m (day d) of
        Some e \<Rightarrow> Inl e
      | None \<Rightarrow> Inr (d\<lparr>year := y, month := m\<rparr>))"

text \<open>\<^verbatim>\<open>d.strftime('%Y-%m')\<close>, for the four-digit years of a date range.\<close>

definition strftime_Ym :: "datetime \<Rightarrow> string" where
  "strftime_Ym d = zfill 4 (str_int (year d)) @ ''-'' @ zfill 2 (str_int (month d))"

subsection \<open>The world outside the script\<close>

text \<open>
  Each field is one thing the script calls and does not define. A call that can raise
  returns \<open>Inl\<close> the exception. The collaborators are functions of their arguments: in
  one run every month is fetched at most once and the analysis is called at most once,
  so this loses nothing. They are taken not to mutate the lists they are handed.
\<close>

record world =
  new_chess_service :: "exn + unit"
  new_analytics_service :: "string \<Rightarrow> int \<Rightarrow> bool \<Rightarrow> exn + unit"
  strptime :: "string \<Rightarrow> string \<Rightarrow> exn + datetime"
  get_games_by_month :: "string \<Rightarrow> int \<Rightarrow> int \<Rightarrow> exn + game list"
  fromtimestamp :: "pyval \<Rightarrow> exn + datetime"
  aggregate_mistake_analysis :: "game list \<Rightarrow> string \<Rightarrow> exn + pyval"
  py_str :: "pyval \<Rightarrow> string"
  format_1f :: "pyval \<Rightarrow> exn + string"
  dirname_file :: string
  path_join :: "string \<Rightarrow> string \<Rightarrow> string"
  now_isoformat :: string
  open_w :: "string \<Rightarrow> exn + unit"
  json_dump :: "pyval \<Rightarrow> exn + unit"

text \<open>The module constants under \<^verbatim>\<open># Configuration\<close>.\<close>

record config =
  USERNAME :: string
  START_DATE :: string
  END_DATE :: string
  TIMEZONE :: string
  STOCKFISH_PATH :: string

subsection \<open>Events and computations\<close>

text \<open>
  What a run does to the outside, in order: a line printed on standard output, a call
  of a collaborator (recorded when it is made, whether it returns or raises), the
  opening of the output file for writing, the \<^verbatim>\<open>json.dump\<close> of a value into it, and the
  traceback printed by the guard.
\<close>

datatype event =
    Print string
  | NewChessService
  | NewAnalyticsService string int bool
  | Fetch string int int
  | Analyze "game list" string
  | OpenWrite string
  | JsonDump string pyval
  | Traceback exn

type_synonym 'a io = "event list \<times> (exn + 'a)"

definition return_io :: "'a \<Rightarrow> 'a io" where
  "return_io x = ([], Inr x)"

definition pure_io :: "exn + 'a \<Rightarrow> 'a io" where
  "pure_io r = ([], r)"

definition print_line :: "string \<Rightarrow> unit io" where
  "print_line s = ([Print s], Inr ())"

definition attempt :: "event \<Rightarrow> exn + 'a \<Rightarrow> 'a io" where
  "attempt ev r = ([ev], r)"

definition bind_io :: "'a io \<Rightarrow> ('a \<Rightarrow> 'b io) \<Rightarrow> 'b io" where
  "bind_io m f =
     (case m of
        (evs, Inl e) \<Rightarrow> (evs, Inl e)
      | (evs, Inr x) \<Rightarrow> (case f x of (evs', r) \<Rightarrow> (evs @ evs', r)))"

definition then_io :: "unit io \<Rightarrow> 'b io \<Rightarrow> 'b io" where
  "then_io m k = bind_io m (\<lambda>_. k)"

subsection \<open>Fetching and filtering (lines 52 to 73)\<close>

text \<open>
  The inner \<^verbatim>\<open>for\<close> loop: a game is appended to \<^verbatim>\<open>filtered_games\<close> when the datetime of
  its \<^verbatim>\<open>end_time\<close> (0 when the key is missing) lies between \<^verbatim>\<open>start\<close> and \<^verbatim>\<open>end\<close>. A
  conversion that raises ends the loop with the exception.
\<close>

fun filter_games :: "world \<Rightarrow> datetime \<Rightarrow> datetime \<Rightarrow> game list \<Rightarrow> game list \<Rightarrow> exn + game list" where
  "filter_games env start end [] filtered_games = Inr filtered_games"
| "filter_games env start end (game # games) filtered_games =
     (case fromtimestamp env (dict_get game ''end_time'' (PInt 0)) of
        Inl e \<Rightarrow> Inl e
      | Inr game_date \<Rightarrow>
          filter_games env start end games
            (if dt_le start game_date \<and> dt_le game_date end
             then filtered_games @ [game] else filtered_games))"

definition month_ok_line :: "datetime \<Rightarrow> game list \<Rightarrow> string" where
  "month_ok_line current filtered_games =
     ''   '' @ check_mark @ '' '' @ strftime_Ym current @ '': ''
       @ str_nat (length filtered_games) @ '' games''"

definition month_failed_line :: "datetime \<Rightarrow> exn \<Rightarrow> string" where
  "month_failed_line current e =
     ''   '' @ cross_mark @ '' '' @ strftime_Ym current @ '': '' @ exn_str e"

text \<open>The body of the \<^verbatim>\<open>try\<close> (lines 57 to 66): its value is the new \<^verbatim>\<open>all_games\<close>.\<close>

definition try_month :: "world \<Rightarrow> config \<Rightarrow> datetime \<Rightarrow> datetime \<Rightarrow> datetime \<Rightarrow> game list \<Rightarrow> (game list) io" where
  "try_month env cfg start end current all_games =
     bind_io (attempt (Fetch (USERNAME cfg) (year current) (month current))
                (get_games_by_month env (USERNAME cfg) (year current) (month current)))
       (\<lambda>games. bind_io (pure_io (filter_games env start end games []))
       (\<lambda>filtered_games. then_io (print_line (month_ok_line current filtered_games))
          (return_io (all_games @ filtered_games))))"

text \<open>
  The \<^verbatim>\<open>try\<close> with its \<^verbatim>\<open>except Exception\<close> (lines 56 to 68): no exception leaves it, so
  the result has no error alternative.
\<close>

definition fetch_month :: "world \<Rightarrow> config \<Rightarrow> datetime \<Rightarrow> datetime \<Rightarrow> datetime \<Rightarrow> game list \<Rightarrow> event list \<times> game list" where
  "fetch_month env cfg start end current all_games =
     (case try_month env cfg start end current all_games of
        (evs, Inr all_games') \<Rightarrow> (evs, all_games')
      | (evs, Inl e) \<Rightarrow> (evs @ [Print (month_failed_line current e)], all_games))"

text \<open>Lines 70 to 73: the step to the next month, outside the \<^verbatim>\<open>try\<close>.\<close>

definition next_month :: "datetime \<Rightarrow> exn + datetime" where
  "next_month current =
     (if month current = 12 then dt_replace current (year current + 1) 1
      else dt_replace current (year current) (month current + 1))"

function fetch_loop :: "world \<Rightarrow> config \<Rightarrow> datetime \<Rightarrow> datetime \<Rightarrow> datetime \<Rightarrow> game list \<Rightarrow> (game list) io" where
  "fetch_loop env cfg start end current all_games =
     (if dt_le current end then
        (case fetch_month env cfg start end current all_games of
           (evs, all_games') \<Rightarrow>
             (case next_month current of
                Inl e \<Rightarrow> (evs, Inl e)
              | Inr current' \<Rightarrow>
                  (case fetch_loop env cfg start end current' all_games' of
                     (evs', r) \<Rightarrow> (evs @ evs', r))))
      else ([], Inr all_games))"
  by pat_completeness auto
termination
proof (relation "measures [\<lambda>(env, cfg, start, end, current, all_games). nat (year end - year current + 1),
                           \<lambda>(env, cfg, start, end, current, all_games). nat (12 - month current)]")
  show "wf (measures [\<lambda>(env, cfg, start, end, current, all_games). nat (year end - year current + 1),
                      \<lambda>(env, cfg, start, end, current, all_games). nat (12 - month current)])"
    by simp
next
  fix env :: world and cfg :: config and start stop current current' :: datetime
    and all_games all_games' :: "game list" and x :: "event list \<times> game list" and evs :: "event list"
  assume le: "dt_le current stop" and nm: "next_month current = Inr current'"
  from le have "year current \<le> year stop"
    by (auto simp: dt_le_def dt_fields_def)
  moreover from nm have
    "(month current = 12 \<and> year current' = year current + 1) \<or>
     (year current' = year current \<and> month current' = month current + 1 \<and> month current < 12)"
    by (auto simp: next_month_def dt_replace_def check_date_fields_def
             split: if_splits option.splits)
  ultimately
  show "((env, cfg, start, stop, current', all_games'), (env, cfg, start, stop, current, all_games))
        \<in> measures [\<lambda>(env, cfg, start, end, current, all_games). nat (year end - year current + 1),
                     \<lambda>(env, cfg, start, end, current, all_games). nat (12 - month current)]"
    by auto
qed

declare fetch_loop.simps [simp del]

subsection \<open>The phases of \<open>main\<close>\<close>

definition banner :: string where
  "banner = replicate 60 CHR ''=''"

text \<open>Lines 33 to 45: the banner and the construction of the two services.\<close>

definition init_services :: "world \<Rightarrow> config \<Rightarrow> unit io" where
  "init_services env cfg =
     then_io (print_line banner)
     (then_io (print_line ''STOCKFISH MISTAKE ANALYSIS (Standalone Script)'')
     (then_io (print_line banner)
     (then_io (print_line (newline @ ''1. Initializing services...''))
     (then_io (attempt NewChessService (new_chess_service env))
     (then_io (attempt (NewAnalyticsService (STOCKFISH_PATH cfg) 12 True)
                 (new_analytics_service env (STOCKFISH_PATH cfg) 12 True))
     (print_line (''   '' @ check_mark @ '' Services initialized'')))))))"

text \<open>Lines 48 to 50: the two dates of the range, parsed.\<close>

definition parse_range :: "world \<Rightarrow> config \<Rightarrow> (datetime \<times> datetime) io" where
  "parse_range env cfg =
     then_io (print_line (newline @ ''2. Fetching games for '' @ USERNAME cfg @ '' from ''
                @ START_DATE cfg @ '' to '' @ END_DATE cfg @ ''...''))
     (bind_io (pure_io (strptime env (START_DATE cfg) ''%Y-%m-%d''))
       (\<lambda>start. bind_io (pure_io (strptime env (END_DATE cfg) ''%Y-%m-%d''))
       (\<lambda>end. return_io (start, end))))"

text \<open>Lines 82 to 88: the one call of the analytics collaborator.\<close>

definition run_analysis :: "world \<Rightarrow> config \<Rightarrow> game list \<Rightarrow> pyval io" where
  "run_analysis env cfg all_games =
     then_io (print_line (newline @ ''3. Running Stockfish mistake analysis...''))
     (then_io (print_line ''   This may take a few minutes...'')
     (attempt (Analyze all_games (USERNAME cfg))
        (aggregate_mistake_analysis env all_games (USERNAME cfg))))"

definition str_upper :: "string \<Rightarrow> string" where
  "str_upper s =
     map (\<lambda>c. case map_of (zip ''abcdefghijklmnopqrstuvwxyz'' ''ABCDEFGHIJKLMNOPQRSTUVWXYZ'') c of
                 None \<Rightarrow> c | Some u \<Rightarrow> u) s"

text \<open>
  One line of a stage's summary (lines 101 to 105): \<^verbatim>\<open>stage_data[key]\<close> is looked up,
  then the line is printed.
\<close>

definition print_field :: "world \<Rightarrow> string \<Rightarrow> pydict \<Rightarrow> string \<Rightarrow> unit io" where
  "print_field env label stage_data k =
     bind_io (pure_io (dict_index stage_data k))
       (\<lambda>v. print_line (''     '' @ label @ '': '' @ py_str env v))"

text \<open>The body of the loop over the stages (lines 98 to 105).\<close>

definition display_stage :: "world \<Rightarrow> pydict \<Rightarrow> string \<Rightarrow> unit io" where
  "display_stage env mistake_analysis stage =
     bind_io (pure_io (attr_get (dict_get mistake_analysis stage (PDict []))))
       (\<lambda>stage_data. bind_io (pure_io (py_gt0 (dict_get stage_data ''total_moves'' (PInt 0))))
       (\<lambda>positive.
          if positive then
            then_io (print_line (newline @ ''   '' @ str_upper stage @ '':''))
            (then_io (print_field env ''Moves analyzed'' stage_data ''total_moves'')
            (then_io (print_field env ''Inaccuracies'' stage_data ''inaccuracies'')
            (then_io (print_field env ''Mistakes'' stage_data ''mistakes'')
            (then_io (print_field env ''Blunders'' stage_data ''blunders'')
            (print_field env ''Avg CP Loss'' stage_data ''avg_cp_loss'')))))
          else return_io ()))"

fun display_stages :: "world \<Rightarrow> pydict \<Rightarrow> string list \<Rightarrow> unit io" where
  "display_stages env mistake_analysis [] = return_io ()"
| "display_stages env mistake_analysis (stage # stages) =
     then_io (display_stage env mistake_analysis stage)
       (display_stages env mistake_analysis stages)"

text \<open>Lines 90 to 105: the summary printed after the analysis.\<close>

definition display_summary :: "world \<Rightarrow> pyval \<Rightarrow> unit io" where
  "display_summary env mistake_analysis =
     bind_io (pure_io (attr_get mistake_analysis))
       (\<lambda>ma. let sample_info = dict_get ma ''sample_info'' (PDict []) in
          then_io (print_line (''   '' @ check_mark @ '' Analysis complete!''))
          (bind_io (pure_io (attr_get sample_info))
            (\<lambda>si. then_io (print_line (''   Games analyzed: ''
                               @ py_str env (dict_get si ''analyzed_games'' (PInt 0))))
            (bind_io (pure_io (format_1f env (dict_get si ''sample_percentage'' (PInt 0))))
              (\<lambda>pct. then_io (print_line (''   Sample: '' @ pct @ ''%''))
              (then_io (print_line (newline @ ''4. Analysis Summary:''))
              (display_stages env ma [''early'', ''middle'', ''endgame''])))))))"

text \<open>Lines 108 to 111.\<close>

definition output_file_of :: "world \<Rightarrow> config \<Rightarrow> string" where
  "output_file_of env cfg =
     path_join env (dirname_file env)
       (''stockfish_analysis_'' @ USERNAME cfg @ ''_'' @ START_DATE cfg @ ''_to_''
          @ END_DATE cfg @ ''.json'')"

text \<open>Lines 116 to 127: the object handed to \<^verbatim>\<open>json.dump\<close>.\<close>

definition output_data :: "config \<Rightarrow> string \<Rightarrow> pyval \<Rightarrow> game list \<Rightarrow> pyval" where
  "output_data cfg analysis_date mistake_analysis all_games =
     PDict [
       (''metadata'', PDict [
          (''username'', PStr (USERNAME cfg)),
          (''start_date'', PStr (START_DATE cfg)),
          (''end_date'', PStr (END_DATE cfg)),
          (''timezone'', PStr (TIMEZONE cfg)),
          (''analysis_date'', PStr analysis_date),
          (''total_games'', PInt (int (length all_games)))]),
       (''mistake_analysis'', mistake_analysis),
       (''games'', PList (map PDict all_games))]"

text \<open>Lines 108 to 142: the file is opened, the object dumped, the path returned.\<close>

definition save_results :: "world \<Rightarrow> config \<Rightarrow> game list \<Rightarrow> pyval \<Rightarrow> string io" where
  "save_results env cfg all_games mistake_analysis =
     (let output_file = output_file_of env cfg in
      then_io (print_line (newline @ ''5. Saving results to file...''))
      (then_io (attempt (OpenWrite output_file) (open_w env output_file))
      (then_io (attempt (JsonDump output_file
                           (output_data cfg (now_isoformat env) mistake_analysis all_games))
                  (json_dump env (output_data cfg (now_isoformat env) mistake_analysis all_games)))
      (then_io (print_line (''   '' @ check_mark @ '' Results saved to: '' @ output_file))
      (then_io (print_line (newline @ banner))
      (then_io (print_line (check_mark @ '' ANALYSIS COMPLETE!''))
      (then_io (print_line banner)
      (then_io (print_line (newline @ ''Next steps:''))
      (then_io (print_line ''1. Open your Jupyter notebook'')
      (then_io (print_line (''2. Run the '' @ quoted ''Load Stockfish Analysis Results'' @ '' cell''))
      (then_io (print_line ''3. Explore the mistake data in DataFrame format'')
      (return_io output_file))))))))))))"

text \<open>Lines 81 to 142: what \<open>main\<close> does once it has a non-empty list of games.\<close>

definition analyse_and_save :: "world \<Rightarrow> config \<Rightarrow> game list \<Rightarrow> string io" where
  "analyse_and_save env cfg all_games =
     bind_io (run_analysis env cfg all_games)
       (\<lambda>mistake_analysis. then_io (display_summary env mistake_analysis)
          (save_results env cfg all_games mistake_analysis))"

text \<open>Lines 75 to 142: after the loop. With no games \<open>main\<close> returns \<^verbatim>\<open>None\<close>.\<close>

definition after_fetch :: "world \<Rightarrow> config \<Rightarrow> game list \<Rightarrow> (string option) io" where
  "after_fetch env cfg all_games =
     then_io (print_line (newline @ ''   Total games fetched: '' @ str_nat (length all_games)))
       (if all_games = [] then
          then_io (print_line (newline @ cross_mark @ '' No games found. Exiting.''))
            (return_io None)
        else bind_io (analyse_and_save env cfg all_games)
               (\<lambda>output_file. return_io (Some output_file)))"

text \<open>Lines 47 to 73: the dates are parsed and the loop runs from \<^verbatim>\<open>start\<close>.\<close>

definition fetch_games :: "world \<Rightarrow> config \<Rightarrow> (game list) io" where
  "fetch_games env cfg =
     bind_io (parse_range env cfg)
       (\<lambda>(start, end). fetch_loop env cfg start end start [])"

subsection \<open>\<open>main\<close> and the guard\<close>

definition main :: "world \<Rightarrow> config \<Rightarrow> (string option) io" where
  "main env cfg =
     then_io (init_services env cfg)
       (bind_io (fetch_games env cfg) (after_fetch env cfg))"

text \<open>
  What the operating system sees of a run: the events in order and the exit status of
  the process.
\<close>

record run =
  events :: "event list"
  exit_status :: int

text \<open>
  Lines 145 to 153. When \<open>main\<close> returns, its value is printed after
  \<^verbatim>\<open>Success! File saved at:\<close> (\<^verbatim>\<open>None\<close> prints as \<^verbatim>\<open>None\<close>) and the interpreter ends
  with status 0; an exception is printed with its traceback and \<^verbatim>\<open>sys.exit(1)\<close> ends
  the process with status 1.
\<close>

definition script :: "world \<Rightarrow> config \<Rightarrow> run" where
  "script env cfg =
     (case main env cfg of
        (evs, Inr output_file) \<Rightarrow>
          \<lparr>events = evs @ [Print (newline @ ''Success! File saved at: ''
                      @ (case output_file of None \<Rightarrow> ''None'' | Some p \<Rightarrow> p))],
           exit_status = 0\<rparr>
      | (evs, Inl e) \<Rightarrow>
          \<lparr>events = evs @ [Print (newline @ cross_mark @ '' Error: '' @ exn_str e), Traceback e],
           exit_status = 1\<rparr>)"

text \<open>The constants as the repository has them.\<close>

definition default_config :: config where
  "default_config =
     \<lparr>USERNAME = ''jay_fh'', START_DATE = ''2026-01-01'', END_DATE = ''2026-01-31'',
      TIMEZONE = ''Bangkok'',
      STOCKFISH_PATH = ''D:'' @ [CHR 0x5C] @ ''Project'' @ [CHR 0x5C] @ ''chesstic_v2'' @ [CHR 0x5C]
        @ ''stockfish'' @ [CHR 0x5C] @ ''stockfish'' @ [CHR 0x5C]
        @ ''stockfish-windows-x86-64-avx2.exe''\<rparr>"

subsection \<open>The interval test, as a predicate on one game\<close>

text \<open>
  The test of line 62 on the datetime of a game's \<^verbatim>\<open>end_time\<close>; false when the
  conversion raises.
\<close>

definition game_date :: "world \<Rightarrow> game \<Rightarrow> exn + datetime" where
  "game_date env game = fromtimestamp env (dict_get game ''end_time'' (PInt 0))"

definition in_range :: "world \<Rightarrow> datetime \<Rightarrow> datetime \<Rightarrow> game \<Rightarrow> bool" where
  "in_range env start end game =
     (case game_date env game of
        Inl e \<Rightarrow> False
      | Inr d \<Rightarrow> dt_le start d \<and> dt_le d end)"

text \<open>The events that touch the analytics collaborator or the disk.\<close>

fun is_print :: "event \<Rightarrow> bool" where
  "is_print (Print s) = True"
| "is_print ev = False"

fun is_fetch :: "event \<Rightarrow> bool" where
  "is_fetch (Fetch u y m) = True"
| "is_fetch ev = False"

fun is_analyze :: "event \<Rightarrow> bool" where
  "is_analyze (Analyze gs u) = True"
| "is_analyze ev = False"

fun is_file_event :: "event \<Rightarrow> bool" where
  "is_file_event (OpenWrite p) = True"
| "is_file_event (JsonDump p d) = True"
| "is_file_event ev = False"

fun is_dump :: "event \<Rightarrow> bool" where
  "is_dump (JsonDump p d) = True"
| "is_dump ev = False"

subsection \<open>A concrete world for examples\<close>

text \<open>
  The examples run the script in a world whose local time zone is UTC and whose
  services, file system and clock never fail. \<open>strptime_Ymd\<close> reads a string as
  \<^verbatim>\<open>datetime.strptime(s, '%Y-%m-%d')\<close> does: four digits, a month and a day of one or
  two digits, nothing after them, and a date that exists.
\<close>

definition digit_val :: "char \<Rightarrow> int option" where
  "digit_val c =
     map_of [(CHR ''0'', 0), (CHR ''1'', 1), (CHR ''2'', 2), (CHR ''3'', 3), (CHR ''4'', 4),
             (CHR ''5'', 5), (CHR ''6'', 6), (CHR ''7'', 7), (CHR ''8'', 8), (CHR ''9'', 9)] c"

fun parse_month :: "string \<Rightarrow> (int \<times> string) option" where
  "parse_month [] = None"
| "parse_month [a] =
     (case digit_val a of
        None \<Rightarrow> None
      | Some x \<Rightarrow> if 1 \<le> x then Some (x, []) else None)"
| "parse_month (a # b # r) =
     (case digit_val a of
        None \<Rightarrow> None
      | Some x \<Rightarrow>
          (case digit_val b of
             None \<Rightarrow> if 1 \<le> x then Some (x, b # r) else None
           | Some y \<Rightarrow>
               if x = 1 \<and> y \<le> 2 then Some (10 + y, r)
               else if x = 0 \<and> 1 \<le> y then Some (y, r)
               else if 1 \<le> x then Some (x, b # r)
               else None))"

fun parse_day :: "string \<Rightarrow> (int \<times> string) option" where
  "parse_day [] = None"
| "parse_day [a] =
     (case digit_val a of
        None \<Rightarrow> None
      | Some x \<Rightarrow> if 1 \<le> x then Some (x, []) else None)"
| "parse_day (a # b # r) =
     (case digit_val a of
        None \<Rightarrow>
          (if a = CHR '' '' then
             (case digit_val b of
                None \<Rightarrow> None
              | Some y \<Rightarrow> if 1 \<le> y then Some (y, r) else None)
           else None)
      | Some x \<Rightarrow>
          (case digit_val b of
             None \<Rightarrow> if 1 \<le> x then Some (x, b # r) else None
           | Some y \<Rightarrow>
               if x = 3 \<and> y \<le> 1 then Some (30 + y, r)
               else if x = 1 \<or> x = 2 then Some (10 * x + y, r)
               else if x = 0 \<and> 1 \<le> y then Some (y, r)
               else if 1 \<le> x then Some (x, b # r)
               else None))"

fun parse_year :: "string \<Rightarrow> (int \<times> string) option" where
  "parse_year (a # b # c # d # r) =
     (case (digit_val a, digit_val b, digit_val c, digit_val d) of
        (Some w, Some x, Some y, Some z) \<Rightarrow> Some (1000 * w + 100 * x + 10 * y + z, r)
      | _ \<Rightarrow> None)"
| "parse_year s = None"

fun expect_dash :: "string \<Rightarrow> string option" where
  "expect_dash [] = None"
| "expect_dash (c # r) = (if c = CHR ''-'' then Some r else None)"

definition parse_Ymd :: "string \<Rightarrow> (int \<times> int \<times> int \<times> string) option" where
  "parse_Ymd s =
     (case parse_year s of
        None \<Rightarrow> None
      | Some (y, r1) \<Rightarrow>
          (case expect_dash r1 of
             None \<Rightarrow> None
           | Some r2 \<Rightarrow>
               (case parse_month r2 of
                  None \<Rightarrow> None
                | Some (m, r3) \<Rightarrow>
                    (case expect_dash r3 of
                       None \<Rightarrow> None
                     | Some r4 \<Rightarrow>
                         (case parse_day r4 of
                            None \<Rightarrow> None
                          | Some (d, rest) \<Rightarrow> Some (y, m, d, rest))))))"

definition strptime_Ymd :: "string \<Rightarrow> exn + datetime" where
  "strptime_Ymd s =
     (case parse_Ymd s of
        None \<Rightarrow>
          Inl (Exn ''ValueError'' (''time data '' @ quoted s @ '' does not match format ''
                 @ quoted ''%Y-%m-%d''))
      | Some (y, m, d, rest) \<Rightarrow>
          if rest = [] then
            (case check_date_fields y m d of
               Some e \<Rightarrow> Inl e
             | None \<Rightarrow>
                 Inr \<lparr>year = y, month = m, day = d, hour = 0, minute = 0, second = 0,
                      microsecond = 0\<rparr>)
          else Inl (Exn ''ValueError'' (''unconverted data remains: '' @ rest)))"

text \<open>The civil date of a day number (days since 1970-01-01), proleptic Gregorian.\<close>

definition civil_from_days :: "int \<Rightarrow> int \<times> int \<times> int" where
  "civil_from_days n =
     (let z = n + 719468;
          era = z div 146097;
          doe = z mod 146097;
          yoe = (doe - doe div 1460 + doe div 36524 - doe div 146096) div 365;
          doy = doe - (365 * yoe + yoe div 4 - yoe div 100);
          mp = (5 * doy + 2) div 153;
          d = doy - (153 * mp + 2) div 5 + 1;
          m = (if mp < 10 then mp + 3 else mp - 9);
          y = yoe + era * 400 + (if m \<le> 2 then 1 else 0)
      in (y, m, d))"

definition utc_fromtimestamp :: "int \<Rightarrow> exn + datetime" where
  "utc_fromtimestamp t =
     (case civil_from_days (t div 86400) of
        (y, m, d) \<Rightarrow>
          if y < 1 \<or> 9999 < y
          then Inl (Exn ''ValueError'' (''year '' @ str_int y @ '' is out of range''))
          else Inr \<lparr>year = y, month = m, day = d, hour = (t mod 86400) div 3600,
                    minute = (t mod 3600) div 60, second = t mod 60, microsecond = 0\<rparr>)"

fun demo_fromtimestamp :: "pyval \<Rightarrow> exn + datetime" where
  "demo_fromtimestamp (PInt t) = utc_fromtimestamp t"
| "demo_fromtimestamp (PBool b) = utc_fromtimestamp (if b then 1 else 0)"
| "demo_fromtimestamp v =
     Inl (Exn ''TypeError'' (quoted (type_name v) @ '' object cannot be interpreted as an integer''))"

fun demo_str :: "pyval \<Rightarrow> string" where
  "demo_str PNone = ''None''"
| "demo_str (PBool b) = (if b then ''True'' else ''False'')"
| "demo_str (PInt n) = str_int n"
| "demo_str (PStr s) = s"
| "demo_str (PList xs) = ''[...]''"
| "demo_str (PDict d) = ''{...}''"

fun demo_format_1f :: "pyval \<Rightarrow> exn + string" where
  "demo_format_1f (PInt n) = Inr (str_int n @ ''.0'')"
| "demo_format_1f (PBool b) = Inr (if b then ''1.0'' else ''0.0'')"
| "demo_format_1f v =
     Inl (Exn ''TypeError'' (''unsupported format string passed to '' @ type_name v
            @ ''.__format__''))"

definition demo_world ::
  "(string \<Rightarrow> int \<Rightarrow> int \<Rightarrow> exn + game list) \<Rightarrow> (game list \<Rightarrow> string \<Rightarrow> exn + pyval) \<Rightarrow> world" where
  "demo_world fetch analyse =
     \<lparr>new_chess_service = Inr (),
      new_analytics_service = (\<lambda>path depth enabled. Inr ()),
      strptime = (\<lambda>s fmt. strptime_Ymd s),
      get_games_by_month = fetch,
      fromtimestamp = demo_fromtimestamp,
      aggregate_mistake_analysis = analyse,
      py_str = demo_str,
      format_1f = demo_format_1f,
      dirname_file = ''/repo/.github/analysis'',
      path_join = (\<lambda>a b. a @ ''/'' @ b),
      now_isoformat = ''2026-02-01T09:30:00'',
      open_w = (\<lambda>p. Inr ()),
      json_dump = (\<lambda>v. Inr ())\<rparr>"

text \<open>
  Game records: one that ended on 2026-01-10 at 12:00, one without an \<^verbatim>\<open>end_time\<close>,
  one that ended on 2026-01-31 at 18:00, one that ended on 2026-02-05 at 00:00, and one
  whose \<^verbatim>\<open>end_time\<close> is a string.
\<close>

definition game_jan10 :: game where
  "game_jan10 = [(''url'', PStr ''https://www.chess.com/game/live/1''), (''end_time'', PInt 1768046400)]"

definition game_no_end_time :: game where
  "game_no_end_time = [(''url'', PStr ''https://www.chess.com/game/live/2'')]"

definition game_jan31 :: game where
  "game_jan31 = [(''url'', PStr ''https://www.chess.com/game/live/5''), (''end_time'', PInt 1769882400)]"

definition game_feb05 :: game where
  "game_feb05 = [(''url'', PStr ''https://www.chess.com/game/live/3''), (''end_time'', PInt 1770249600)]"

definition game_bad_end_time :: game where
  "game_bad_end_time = [(''url'', PStr ''https://www.chess.com/game/live/4''), (''end_time'', PStr ''soon'')]"

definition no_games :: "string \<Rightarrow> int \<Rightarrow> int \<Rightarrow> exn + game list" where
  "no_games u y m = Inr []"

definition demo_fetch :: "string \<Rightarrow> int \<Rightarrow> int \<Rightarrow> exn + game list" where
  "demo_fetch u y m =
     (if y = 2026 \<and> m = 1 then Inr [game_jan10, game_no_end_time, game_jan31]
      else if y = 2026 \<and> m = 2 then Inr [game_feb05]
      else Inr [])"

definition demo_analysis :: pyval where
  "demo_analysis =
     PDict [(''sample_info'', PDict [(''analyzed_games'', PInt 1), (''sample_percentage'', PInt 100)]),
            (''early'', PDict [(''total_moves'', PInt 10), (''inaccuracies'', PInt 2),
                               (''mistakes'', PInt 1), (''blunders'', PInt 0),
                               (''avg_cp_loss'', PInt 35)])]"

definition demo_analyse :: "game list \<Rightarrow> string \<Rightarrow> exn + pyval" where
  "demo_analyse games_data username = Inr demo_analysis"

text \<open>An analysis that raises, a month that cannot be fetched, a record that cannot be dated.\<close>

definition failing_analyse :: "game list \<Rightarrow> string \<Rightarrow> exn + pyval" where
  "failing_analyse games_data username = Inl (Exn ''RuntimeError'' ''engine process died'')"

definition failing_fetch :: "string \<Rightarrow> int \<Rightarrow> int \<Rightarrow> exn + game list" where
  "failing_fetch u y m =
     (if y = 2026 \<and> m = 1 then Inl (Exn ''ConnectionError'' ''chess.com timed out'')
      else if y = 2026 \<and> m = 2 then Inr [game_feb05]
      else Inr [])"

definition bad_fetch :: "string \<Rightarrow> int \<Rightarrow> int \<Rightarrow> exn + game list" where
  "bad_fetch u y m =
     (if y = 2026 \<and> m = 1 then Inr [game_jan10, game_bad_end_time] else Inr [])"

text \<open>
  The world in which one month's fetch returns no games, whatever it did before: the
  yardstick for a month whose fetch raises.
\<close>

definition month_without_games :: "world \<Rightarrow> string \<Rightarrow> int \<Rightarrow> int \<Rightarrow> world" where
  "month_without_games env u y m =
     env\<lparr>get_games_by_month :=
           (\<lambda>u' y' m'. if u' = u \<and> y' = y \<and> m' = m then Inr []
                       else get_games_by_month env u' y' m')\<rparr>"

text \<open>
  The months of a range, counted from year 0, and the dates from which the loop can step
  month by month without running past the end date's month: a day of the month that
  every month has and that is not after the end date's day, both at midnight.
\<close>

definition month_index :: "datetime \<Rightarrow> int" where
  "month_index d = 12 * year d + (month d - 1)"

definition midnight :: "datetime \<Rightarrow> bool" where
  "midnight d = (hour d = 0 \<and> minute d = 0 \<and> second d = 0 \<and> microsecond d = 0)"

definition steps_cleanly :: "datetime \<Rightarrow> datetime \<Rightarrow> bool" where
  "steps_cleanly end current =
     (1 \<le> year current \<and> 1 \<le> month current \<and> month current \<le> 12 \<and>
      1 \<le> day current \<and> day current \<le> 28 \<and> day current \<le> day end \<and>
      midnight current \<and> midnight end \<and>
      1 \<le> month end \<and> month end \<le> 12 \<and> year end \<le> 9998)"

section \<open>Properties\<close>

subsection \<open>Computations\<close>

lemma bind_io_Inl: "bind_io (evs, Inl e) f = (evs, Inl e)"
  by (simp add: bind_io_def)

lemma bind_io_Inr: "bind_io (evs, Inr x) f = (evs @ fst (f x), snd (f x))"
  by (simp add: bind_io_def split: prod.splits)

lemma fst_bind_io:
  "fst (bind_io m f) = fst m @ (case snd m of Inl e \<Rightarrow> [] | Inr x \<Rightarrow> fst (f x))"
  by (cases m) (auto simp: bind_io_def split: sum.splits prod.splits)

lemma snd_bind_io:
  "snd (bind_io m f) = (case snd m of Inl e \<Rightarrow> Inl e | Inr x \<Rightarrow> snd (f x))"
  by (cases m) (auto simp: bind_io_def split: sum.splits prod.splits)

lemma fst_then_io:
  "fst (then_io m k) = fst m @ (case snd m of Inl e \<Rightarrow> [] | Inr x \<Rightarrow> fst k)"
  by (simp add: then_io_def fst_bind_io)

lemma snd_then_io:
  "snd (then_io m k) = (case snd m of Inl e \<Rightarrow> Inl e | Inr x \<Rightarrow> snd k)"
  by (simp add: then_io_def snd_bind_io)

lemma io_prims:
  "fst (print_line s) = [Print s]" "snd (print_line s) = Inr ()"
  "fst (attempt ev r) = [ev]" "snd (attempt ev r) = r"
  "fst (pure_io r) = []" "snd (pure_io r) = r"
  "fst (return_io x) = []" "snd (return_io x) = Inr x"
  by (simp_all add: print_line_def attempt_def pure_io_def return_io_def)

lemmas io_simps = fst_bind_io snd_bind_io fst_then_io snd_then_io io_prims

lemma filter_games_Inr:
  "filter_games env start end games acc = Inr fg \<Longrightarrow>
     fg = acc @ filter (in_range env start end) games"
proof (induction games arbitrary: acc)
  case Nil
  then show ?case by simp
next
  case (Cons g games)
  from Cons.prems obtain d where d: "game_date env g = Inr d"
    by (auto simp: game_date_def split: sum.splits)
  with Cons.prems have
    "filter_games env start end games
       (if dt_le start d \<and> dt_le d end then acc @ [g] else acc) = Inr fg"
    by (simp add: game_date_def)
  from Cons.IH [OF this] d show ?case
    by (simp add: in_range_def)
qed

lemma filter_games_converts:
  "filter_games env start end games acc = Inr fg \<Longrightarrow> g \<in> set games \<Longrightarrow>
     \<exists>d. game_date env g = Inr d"
proof (induction games arbitrary: acc)
  case Nil
  then show ?case by simp
next
  case (Cons a games)
  from Cons.prems(1) obtain d where d: "game_date env a = Inr d"
    by (auto simp: game_date_def split: sum.splits)
  with Cons.prems(1) have rest:
    "filter_games env start end games
       (if dt_le start d \<and> dt_le d end then acc @ [a] else acc) = Inr fg"
    by (simp add: game_date_def)
  show ?case
  proof (cases "g = a")
    case True
    with d show ?thesis by blast
  next
    case False
    with Cons.prems(2) have "g \<in> set games" by simp
    from Cons.IH [OF rest this] show ?thesis .
  qed
qed

lemma filter_games_total:
  "list_all (\<lambda>g. isl (game_date env g) = False) games \<Longrightarrow>
     filter_games env start end games acc = Inr (acc @ filter (in_range env start end) games)"
proof (induction games arbitrary: acc)
  case Nil
  then show ?case by simp
next
  case (Cons g games)
  from Cons.prems obtain d where d: "game_date env g = Inr d"
    by (cases "game_date env g") auto
  from Cons.prems have "list_all (\<lambda>g. isl (game_date env g) = False) games" by simp
  from Cons.IH [OF this] d show ?case
    by (simp add: game_date_def [symmetric] in_range_def)
qed

lemma fetch_month_cases:
  "fetch_month env cfg start end current all_games =
     (case get_games_by_month env (USERNAME cfg) (year current) (month current) of
        Inl e \<Rightarrow> ([Fetch (USERNAME cfg) (year current) (month current),
                   Print (month_failed_line current e)], all_games)
      | Inr games \<Rightarrow>
          (case filter_games env start end games [] of
             Inl e \<Rightarrow> ([Fetch (USERNAME cfg) (year current) (month current),
                        Print (month_failed_line current e)], all_games)
           | Inr fg \<Rightarrow> ([Fetch (USERNAME cfg) (year current) (month current),
                         Print (month_ok_line current fg)], all_games @ fg)))"
  by (simp add: fetch_month_def try_month_def bind_io_def then_io_def attempt_def pure_io_def
        print_line_def return_io_def split: sum.splits)

lemma fetch_month_events:
  "ev \<in> set (fst (fetch_month env cfg start end current all_games)) \<Longrightarrow> is_fetch ev \<or> is_print ev"
  by (auto simp: fetch_month_cases split: sum.splits)

lemma fetch_loop_stop:
  "\<not> dt_le current end \<Longrightarrow> fetch_loop env cfg start end current all_games = ([], Inr all_games)"
  by (simp add: fetch_loop.simps)

lemma fetch_loop_raise:
  "dt_le current end \<Longrightarrow> fetch_month env cfg start end current all_games = (evs, ag) \<Longrightarrow>
   next_month current = Inl e \<Longrightarrow>
     fetch_loop env cfg start end current all_games = (evs, Inl e)"
  by (simp add: fetch_loop.simps)

lemma fetch_loop_step:
  "dt_le current end \<Longrightarrow> fetch_month env cfg start end current all_games = (evs, ag) \<Longrightarrow>
   next_month current = Inr c' \<Longrightarrow>
     fetch_loop env cfg start end current all_games =
       (evs @ fst (fetch_loop env cfg start end c' ag), snd (fetch_loop env cfg start end c' ag))"
  by (simp add: fetch_loop.simps [of env cfg start "end" current] split: prod.splits)

lemma fetch_loop_cases [case_names stop raise step]:
  assumes stop: "\<And>current acc. \<not> dt_le current end \<Longrightarrow> P current acc [] (Inr acc)"
    and raise: "\<And>current acc evs ag e.
      dt_le current end \<Longrightarrow> fetch_month env cfg start end current acc = (evs, ag) \<Longrightarrow>
      next_month current = Inl e \<Longrightarrow> P current acc evs (Inl e)"
    and step: "\<And>current acc evs ag c' evs' r.
      dt_le current end \<Longrightarrow> fetch_month env cfg start end current acc = (evs, ag) \<Longrightarrow>
      next_month current = Inr c' \<Longrightarrow> fetch_loop env cfg start end c' ag = (evs', r) \<Longrightarrow>
      P c' ag evs' r \<Longrightarrow> P current acc (evs @ evs') r"
  shows "P current acc (fst (fetch_loop env cfg start end current acc))
           (snd (fetch_loop env cfg start end current acc))"
  using assms
proof (induction env cfg start "end" current acc rule: fetch_loop.induct)
  case (1 env cfg start "end" current all_games)
  show ?case
  proof (cases "dt_le current end")
    case False
    with "1.prems"(1) show ?thesis by (simp add: fetch_loop_stop)
  next
    case True
    obtain evs ag where fm: "fetch_month env cfg start end current all_games = (evs, ag)"
      by (cases "fetch_month env cfg start end current all_games")
    show ?thesis
    proof (cases "next_month current")
      case (Inl e)
      with True fm "1.prems"(2) show ?thesis by (simp add: fetch_loop_raise)
    next
      case (Inr c')
      have ih: "P c' ag (fst (fetch_loop env cfg start end c' ag))
                  (snd (fetch_loop env cfg start end c' ag))"
        using "1.IH" [OF True fm [symmetric] Inr] "1.prems" by blast
      have "P current all_games (evs @ fst (fetch_loop env cfg start end c' ag))
              (snd (fetch_loop env cfg start end c' ag))"
        by (rule "1.prems"(3) [OF True fm Inr _ ih]) simp
      with True fm Inr show ?thesis by (simp add: fetch_loop_step)
    qed
  qed
qed

lemma fetch_loop_events:
  "list_all (\<lambda>ev. is_fetch ev \<or> is_print ev) (fst (fetch_loop env cfg start end current acc))"
proof (induction current acc rule: fetch_loop_cases [where env = env and cfg = cfg and start = start and ?end = "end"])
  case (stop current acc)
  show ?case by simp
next
  case (raise current acc evs ag e)
  then show ?case using fetch_month_events [of _ env cfg start "end" current acc]
    by (auto simp: list_all_iff)
next
  case (step current acc evs ag c' evs' r)
  then show ?case using fetch_month_events [of _ env cfg start "end" current acc]
    by (auto simp: list_all_iff)
qed

lemma fetch_loop_extends:
  "snd (fetch_loop env cfg start end current acc) = Inr res \<Longrightarrow>
     \<exists>rest. res = acc @ rest \<and> list_all (in_range env start end) rest"
proof (induction current acc arbitrary: res rule: fetch_loop_cases [where env = env and cfg = cfg and start = start and ?end = "end"])
  case (stop current acc)
  then show ?case by simp
next
  case (raise current acc evs ag e)
  then show ?case by simp
next
  case (step current acc evs ag c' evs' r)
  from step.prems step.IH obtain rest where rest: "res = ag @ rest" "list_all (in_range env start end) rest"
    by blast
  from step.hyps(2) have "ag = acc \<or> (\<exists>games fg. filter_games env start end games [] = Inr fg \<and> ag = acc @ fg)"
    by (auto simp: fetch_month_cases split: sum.splits)
  then show ?case
  proof
    assume "ag = acc"
    with rest show ?thesis by blast
  next
    assume "\<exists>games fg. filter_games env start end games [] = Inr fg \<and> ag = acc @ fg"
    then obtain games fg where fg: "filter_games env start end games [] = Inr fg" "ag = acc @ fg"
      by blast
    from filter_games_Inr [OF fg(1)] have "list_all (in_range env start end) fg"
      by (simp add: list_all_iff)
    with rest fg(2) have "res = acc @ (fg @ rest) \<and> list_all (in_range env start end) (fg @ rest)"
      by simp
    then show ?thesis by blast
  qed
qed

lemma fetch_loop_complete:
  assumes games: "get_games_by_month env (USERNAME cfg) y m = Inr games"
    and fg: "filter_games env start end games [] = Inr fg"
  shows "Fetch (USERNAME cfg) y m \<in> set (fst (fetch_loop env cfg start end current acc)) \<Longrightarrow>
         snd (fetch_loop env cfg start end current acc) = Inr res \<Longrightarrow> set fg \<subseteq> set res"
proof (induction current acc arbitrary: res rule: fetch_loop_cases [where env = env and cfg = cfg and start = start and ?end = "end"])
  case (stop current acc)
  then show ?case by simp
next
  case (raise current acc evs ag e)
  then show ?case by simp
next
  case (step current acc evs ag c' evs' r)
  from step.hyps(4) step.prems(2) have r: "snd (fetch_loop env cfg start end c' ag) = Inr res"
    by simp
  from fetch_loop_extends [OF r] obtain rest where rest: "res = ag @ rest" by blast
  from step.prems(1) have "Fetch (USERNAME cfg) y m \<in> set evs \<or> Fetch (USERNAME cfg) y m \<in> set evs'"
    by auto
  then show ?case
  proof
    assume "Fetch (USERNAME cfg) y m \<in> set evs"
    with step.hyps(2) have "year current = y \<and> month current = m"
      by (auto simp: fetch_month_cases split: sum.splits)
    with step.hyps(2) games fg have "ag = acc @ fg"
      by (auto simp: fetch_month_cases split: sum.splits)
    with rest show ?thesis by auto
  next
    assume "Fetch (USERNAME cfg) y m \<in> set evs'"
    with step.IH step.prems(2) show ?thesis by simp
  qed
qed

subsection \<open>The run, phase by phase\<close>

lemma script_events:
  "events (script env cfg) =
     fst (main env cfg) @
       (case snd (main env cfg) of
          Inr output_file \<Rightarrow>
            [Print (newline @ ''Success! File saved at: ''
               @ (case output_file of None \<Rightarrow> ''None'' | Some p \<Rightarrow> p))]
        | Inl e \<Rightarrow> [Print (newline @ cross_mark @ '' Error: '' @ exn_str e), Traceback e])"
  by (cases "main env cfg") (simp add: script_def split: sum.splits)

lemma script_exit_status:
  "exit_status (script env cfg) = (case snd (main env cfg) of Inr output_file \<Rightarrow> 0 | Inl e \<Rightarrow> 1)"
  by (cases "main env cfg") (simp add: script_def split: sum.splits)

lemma fst_main:
  "fst (main env cfg) =
     fst (init_services env cfg) @
       (case snd (init_services env cfg) of
          Inl e \<Rightarrow> []
        | Inr u \<Rightarrow>
            fst (fetch_games env cfg) @
              (case snd (fetch_games env cfg) of
                 Inl e \<Rightarrow> []
               | Inr all_games \<Rightarrow> fst (after_fetch env cfg all_games)))"
  by (simp add: main_def io_simps split: sum.splits)

lemma snd_main:
  "snd (main env cfg) =
     (case snd (init_services env cfg) of
        Inl e \<Rightarrow> Inl e
      | Inr u \<Rightarrow>
          (case snd (fetch_games env cfg) of
             Inl e \<Rightarrow> Inl e
           | Inr all_games \<Rightarrow> snd (after_fetch env cfg all_games)))"
  by (simp add: main_def io_simps split: sum.splits)

lemma fst_after_fetch:
  "fst (after_fetch env cfg all_games) =
     Print (newline @ ''   Total games fetched: '' @ str_nat (length all_games)) #
       (if all_games = [] then [Print (newline @ cross_mark @ '' No games found. Exiting.'')]
        else fst (analyse_and_save env cfg all_games))"
  by (simp add: after_fetch_def io_simps split: sum.splits)

lemma snd_after_fetch:
  "snd (after_fetch env cfg all_games) =
     (if all_games = [] then Inr None
      else (case snd (analyse_and_save env cfg all_games) of
              Inl e \<Rightarrow> Inl e | Inr output_file \<Rightarrow> Inr (Some output_file)))"
  by (simp add: after_fetch_def io_simps split: sum.splits)

lemma fst_analyse_and_save:
  "fst (analyse_and_save env cfg all_games) =
     [Print (newline @ ''3. Running Stockfish mistake analysis...''),
      Print ''   This may take a few minutes...'',
      Analyze all_games (USERNAME cfg)] @
       (case aggregate_mistake_analysis env all_games (USERNAME cfg) of
          Inl e \<Rightarrow> []
        | Inr ma \<Rightarrow>
            fst (display_summary env ma) @
              (case snd (display_summary env ma) of
                 Inl e \<Rightarrow> []
               | Inr u \<Rightarrow> fst (save_results env cfg all_games ma)))"
  by (simp add: analyse_and_save_def run_analysis_def io_simps split: sum.splits)

lemma snd_analyse_and_save:
  "snd (analyse_and_save env cfg all_games) =
     (case aggregate_mistake_analysis env all_games (USERNAME cfg) of
        Inl e \<Rightarrow> Inl e
      | Inr ma \<Rightarrow>
          (case snd (display_summary env ma) of
             Inl e \<Rightarrow> Inl e
           | Inr u \<Rightarrow> snd (save_results env cfg all_games ma)))"
  by (simp add: analyse_and_save_def run_analysis_def io_simps split: sum.splits)

lemma fst_save_results:
  "fst (save_results env cfg all_games ma) =
     [Print (newline @ ''5. Saving results to file...''), OpenWrite (output_file_of env cfg)] @
       (case open_w env (output_file_of env cfg) of
          Inl e \<Rightarrow> []
        | Inr u \<Rightarrow>
            JsonDump (output_file_of env cfg) (output_data cfg (now_isoformat env) ma all_games) #
              (case json_dump env (output_data cfg (now_isoformat env) ma all_games) of
                 Inl e \<Rightarrow> []
               | Inr u \<Rightarrow>
                   [Print (''   '' @ check_mark @ '' Results saved to: '' @ output_file_of env cfg),
                    Print (newline @ banner),
                    Print (check_mark @ '' ANALYSIS COMPLETE!''),
                    Print banner,
                    Print (newline @ ''Next steps:''),
                    Print ''1. Open your Jupyter notebook'',
                    Print (''2. Run the '' @ quoted ''Load Stockfish Analysis Results'' @ '' cell''),
                    Print ''3. Explore the mistake data in DataFrame format'']))"
  by (simp add: save_results_def Let_def io_simps split: sum.splits)

lemma snd_save_results:
  "snd (save_results env cfg all_games ma) =
     (case open_w env (output_file_of env cfg) of
        Inl e \<Rightarrow> Inl e
      | Inr u \<Rightarrow>
          (case json_dump env (output_data cfg (now_isoformat env) ma all_games) of
             Inl e \<Rightarrow> Inl e
           | Inr u \<Rightarrow> Inr (output_file_of env cfg)))"
  by (simp add: save_results_def Let_def io_simps split: sum.splits)

lemma init_events:
  "list_all (\<lambda>ev. \<not> is_fetch ev \<and> \<not> is_analyze ev \<and> \<not> is_file_event ev)
     (fst (init_services env cfg))"
  by (simp add: init_services_def io_simps split: sum.splits)

lemma parse_range_events: "list_all is_print (fst (parse_range env cfg))"
  by (simp add: parse_range_def io_simps split: sum.splits)

lemma fetch_games_events:
  "list_all (\<lambda>ev. is_fetch ev \<or> is_print ev) (fst (fetch_games env cfg))"
proof -
  have "list_all (\<lambda>ev. is_fetch ev \<or> is_print ev) (fst (parse_range env cfg))"
    using parse_range_events [of env cfg] by (simp add: list_all_iff)
  then show ?thesis
    using fetch_loop_events
    by (simp add: fetch_games_def io_simps split: sum.splits prod.splits)
qed

lemma all_bind_io:
  "list_all P (fst m) \<Longrightarrow> (\<And>x. list_all P (fst (f x))) \<Longrightarrow> list_all P (fst (bind_io m f))"
  by (simp add: fst_bind_io split: sum.splits)

lemma all_then_io:
  "list_all P (fst m) \<Longrightarrow> list_all P (fst k) \<Longrightarrow> list_all P (fst (then_io m k))"
  by (simp add: fst_then_io split: sum.splits)

lemma all_if:
  "list_all P (fst a) \<Longrightarrow> list_all P (fst b) \<Longrightarrow> list_all P (fst (if c then a else b))"
  by simp

lemma all_prims:
  "is_print (Print s)"
  "P (Print s) \<Longrightarrow> list_all P (fst (print_line s))"
  "list_all P (fst (pure_io r))"
  "list_all P (fst (return_io x))"
  by (simp_all add: io_prims)

lemma print_field_events: "list_all is_print (fst (print_field env label sd k))"
  unfolding print_field_def by (intro all_bind_io all_prims)

lemma display_stage_events: "list_all is_print (fst (display_stage env ma stage))"
  unfolding display_stage_def
  by (intro all_bind_io all_then_io all_if all_prims print_field_events)

lemma display_stages_events: "list_all is_print (fst (display_stages env ma stages))"
  by (induction stages) (auto intro!: all_then_io all_prims display_stage_events)

lemma display_summary_events: "list_all is_print (fst (display_summary env ma))"
  unfolding display_summary_def Let_def
  by (intro all_bind_io all_then_io all_prims display_stages_events)

lemma print_kind: "is_print ev \<Longrightarrow> \<not> is_fetch ev \<and> \<not> is_analyze ev \<and> \<not> is_file_event ev \<and> \<not> is_dump ev"
  by (cases ev) auto

lemma fetch_kind: "is_fetch ev \<Longrightarrow> \<not> is_analyze ev \<and> \<not> is_file_event ev \<and> \<not> is_dump ev"
  by (cases ev) auto

lemma dump_kind: "is_dump ev \<Longrightarrow> is_file_event ev"
  by (cases ev) auto

lemma init_filter:
  "filter is_fetch (fst (init_services env cfg)) = []"
  "filter is_analyze (fst (init_services env cfg)) = []"
  "filter is_file_event (fst (init_services env cfg)) = []"
  "filter is_dump (fst (init_services env cfg)) = []"
  using init_events [of env cfg] by (auto simp: filter_empty_conv list_all_iff dest: dump_kind)

lemma fetch_games_filter:
  "filter is_analyze (fst (fetch_games env cfg)) = []"
  "filter is_file_event (fst (fetch_games env cfg)) = []"
  "filter is_dump (fst (fetch_games env cfg)) = []"
  using fetch_games_events [of env cfg]
  by (auto simp: filter_empty_conv list_all_iff dest: print_kind fetch_kind)

lemma display_filter:
  "filter is_fetch (fst (display_summary env ma)) = []"
  "filter is_analyze (fst (display_summary env ma)) = []"
  "filter is_file_event (fst (display_summary env ma)) = []"
  "filter is_dump (fst (display_summary env ma)) = []"
  using display_summary_events [of env ma]
  by (auto simp: filter_empty_conv list_all_iff dest: print_kind)

lemmas run_simps = script_events fst_main fst_after_fetch fst_analyse_and_save fst_save_results
  init_filter fetch_games_filter display_filter


subsection \<open>Runs of the example world\<close>

lemma no_games_fetch_games:
  "snd (fetch_games (demo_world no_games demo_analyse) default_config) = Inr []"
  by code_simp

lemma demo_fetch_games:
  "snd (fetch_games (demo_world demo_fetch demo_analyse) default_config) = Inr [game_jan10]"
  by code_simp

lemma demo_init_services:
  "snd (init_services (demo_world fetch analyse) cfg) = Inr ()"
  by (simp add: init_services_def io_simps demo_world_def)


subsection \<open>The output file is written only when games were found\<close>

text \<open>
  Claim C10. When the loop ends with an empty list of games, the run has no call of the
  analysis and no file event (the output file is neither opened nor written); and
  whenever a run opens or writes the output file, the loop has ended with a list of
  games that is not empty.
\<close>

theorem file_only_with_games:
  "(snd (fetch_games env cfg) = Inr [] \<longrightarrow>
      filter is_analyze (events (script env cfg)) = [] \<and>
      filter is_file_event (events (script env cfg)) = []) \<and>
   (\<forall>ev \<in> set (events (script env cfg)). is_file_event ev \<longrightarrow>
      (\<exists>all_games. snd (fetch_games env cfg) = Inr all_games \<and> all_games \<noteq> []))"
proof (intro conjI impI ballI)
  assume "snd (fetch_games env cfg) = Inr []"
  then show "filter is_analyze (events (script env cfg)) = []"
    by (simp add: run_simps split: sum.splits)
next
  assume "snd (fetch_games env cfg) = Inr []"
  then show "filter is_file_event (events (script env cfg)) = []"
    by (simp add: run_simps split: sum.splits)
next
  fix ev
  assume ev: "ev \<in> set (events (script env cfg))" and fe: "is_file_event ev"
  show "\<exists>all_games. snd (fetch_games env cfg) = Inr all_games \<and> all_games \<noteq> []"
  proof (rule ccontr)
    assume none: "\<not> (\<exists>all_games. snd (fetch_games env cfg) = Inr all_games \<and> all_games \<noteq> [])"
    have "filter is_file_event (events (script env cfg)) = []"
    proof (cases "snd (fetch_games env cfg)")
      case (Inl e)
      then show ?thesis by (simp add: run_simps split: sum.splits)
    next
      case (Inr all_games)
      with none have "all_games = []" by simp
      with Inr show ?thesis by (simp add: run_simps split: sum.splits)
    qed
    with ev fe show False by (simp add: filter_empty_conv)
  qed
qed

theorem file_only_with_games_witness:
  "snd (fetch_games (demo_world no_games demo_analyse) default_config) = Inr [] \<and>
   filter is_analyze (events (script (demo_world no_games demo_analyse) default_config)) = [] \<and>
   filter is_file_event (events (script (demo_world no_games demo_analyse) default_config)) = [] \<and>
   OpenWrite (output_file_of (demo_world demo_fetch demo_analyse) default_config)
     \<in> set (events (script (demo_world demo_fetch demo_analyse) default_config)) \<and>
   (\<exists>all_games. snd (fetch_games (demo_world demo_fetch demo_analyse) default_config) = Inr all_games
      \<and> all_games \<noteq> [])"
proof -
  have opened: "OpenWrite (output_file_of (demo_world demo_fetch demo_analyse) default_config)
     \<in> set (events (script (demo_world demo_fetch demo_analyse) default_config))"
    by code_simp
  have "is_file_event (OpenWrite (output_file_of (demo_world demo_fetch demo_analyse) default_config))"
    by simp
  with opened file_only_with_games [of "demo_world demo_fetch demo_analyse" default_config]
  have "\<exists>all_games. snd (fetch_games (demo_world demo_fetch demo_analyse) default_config) = Inr all_games
      \<and> all_games \<noteq> []"
    by blast
  with opened no_games_fetch_games
    file_only_with_games [of "demo_world no_games demo_analyse" default_config]
  show ?thesis by simp
qed

subsection \<open>What is serialized\<close>

lemma dumps_of_run:
  "filter is_dump (events (script env cfg)) =
     (case snd (init_services env cfg) of
        Inl e \<Rightarrow> []
      | Inr u \<Rightarrow>
          (case snd (fetch_games env cfg) of
             Inl e \<Rightarrow> []
           | Inr all_games \<Rightarrow>
               if all_games = [] then []
               else (case aggregate_mistake_analysis env all_games (USERNAME cfg) of
                       Inl e \<Rightarrow> []
                     | Inr ma \<Rightarrow>
                         (case snd (display_summary env ma) of
                            Inl e \<Rightarrow> []
                          | Inr u \<Rightarrow>
                              (case open_w env (output_file_of env cfg) of
                                 Inl e \<Rightarrow> []
                               | Inr u \<Rightarrow>
                                   [JsonDump (output_file_of env cfg)
                                      (output_data cfg (now_isoformat env) ma all_games)])))))"
  by (simp add: run_simps split: sum.splits)

lemma dump_form:
  assumes "JsonDump path data \<in> set (events (script env cfg))"
  shows "\<exists>all_games ma. snd (fetch_games env cfg) = Inr all_games \<and> all_games \<noteq> [] \<and>
           aggregate_mistake_analysis env all_games (USERNAME cfg) = Inr ma \<and>
           path = output_file_of env cfg \<and>
           data = output_data cfg (now_isoformat env) ma all_games"
proof -
  let ?dumps = "filter is_dump (events (script env cfg))"
  from assms have mem: "JsonDump path data \<in> set ?dumps" by simp
  have "is_dump (JsonDump path data)" by simp
  with assms have ne: "?dumps \<noteq> []" unfolding filter_empty_conv by blast
  obtain u where i: "snd (init_services env cfg) = Inr u"
    using ne by (cases "snd (init_services env cfg)") (simp_all add: dumps_of_run)
  obtain all_games where f: "snd (fetch_games env cfg) = Inr all_games"
    using ne i by (cases "snd (fetch_games env cfg)") (simp_all add: dumps_of_run)
  have g: "all_games \<noteq> []"
    using ne i f by (auto simp: dumps_of_run)
  obtain ma where a: "aggregate_mistake_analysis env all_games (USERNAME cfg) = Inr ma"
    using ne i f g
    by (cases "aggregate_mistake_analysis env all_games (USERNAME cfg)") (simp_all add: dumps_of_run)
  obtain u' where d: "snd (display_summary env ma) = Inr u'"
    using ne i f g a by (cases "snd (display_summary env ma)") (simp_all add: dumps_of_run)
  obtain u'' where ow: "open_w env (output_file_of env cfg) = Inr u''"
    using ne i f g a d by (cases "open_w env (output_file_of env cfg)") (simp_all add: dumps_of_run)
  from i f g a d ow have eq:
    "?dumps = [JsonDump (output_file_of env cfg) (output_data cfg (now_isoformat env) ma all_games)]"
    by (simp add: dumps_of_run)
  from mem have "path = output_file_of env cfg \<and> data = output_data cfg (now_isoformat env) ma all_games"
    unfolding eq by simp
  with f g a show ?thesis by blast
qed

lemma demo_dump:
  "JsonDump (output_file_of (demo_world demo_fetch demo_analyse) default_config)
     (output_data default_config ''2026-02-01T09:30:00'' demo_analysis [game_jan10])
   \<in> set (events (script (demo_world demo_fetch demo_analyse) default_config))"
  by code_simp

text \<open>
  Claim C4. Whatever a run hands to \<^verbatim>\<open>json.dump\<close> is the object with the three fields
  \<^verbatim>\<open>metadata\<close>, \<^verbatim>\<open>mistake_analysis\<close> and \<^verbatim>\<open>games\<close>, in this order: the metadata are exactly
  the user name, the start date, the end date, the time zone, the timestamp of the
  analysis and the number of games; the analysis is the value the aggregation returned
  for the accumulated games and the user name; the games are the accumulated list, which
  is not empty.
\<close>

theorem serialized_object:
  assumes "JsonDump path data \<in> set (events (script env cfg))"
  shows "\<exists>all_games mistake_analysis.
           snd (fetch_games env cfg) = Inr all_games \<and> all_games \<noteq> [] \<and>
           aggregate_mistake_analysis env all_games (USERNAME cfg) = Inr mistake_analysis \<and>
           data = PDict [
             (''metadata'', PDict [
                (''username'', PStr (USERNAME cfg)),
                (''start_date'', PStr (START_DATE cfg)),
                (''end_date'', PStr (END_DATE cfg)),
                (''timezone'', PStr (TIMEZONE cfg)),
                (''analysis_date'', PStr (now_isoformat env)),
                (''total_games'', PInt (int (length all_games)))]),
             (''mistake_analysis'', mistake_analysis),
             (''games'', PList (map PDict all_games))]"
  using dump_form [OF assms] by (auto simp: output_data_def)

theorem serialized_object_witness:
  "JsonDump (output_file_of (demo_world demo_fetch demo_analyse) default_config)
     (output_data default_config ''2026-02-01T09:30:00'' demo_analysis [game_jan10])
   \<in> set (events (script (demo_world demo_fetch demo_analyse) default_config)) \<and>
   output_data default_config ''2026-02-01T09:30:00'' demo_analysis [game_jan10] =
     PDict [
       (''metadata'', PDict [
          (''username'', PStr ''jay_fh''),
          (''start_date'', PStr ''2026-01-01''),
          (''end_date'', PStr ''2026-01-31''),
          (''timezone'', PStr ''Bangkok''),
          (''analysis_date'', PStr ''2026-02-01T09:30:00''),
          (''total_games'', PInt 1)]),
       (''mistake_analysis'', demo_analysis),
       (''games'', PList [PDict game_jan10])]"
  using serialized_object [OF demo_dump] demo_dump demo_fetch_games
  by (auto simp: default_config_def demo_world_def demo_analyse_def)

text \<open>
  Claim C5. In every object a run hands to \<^verbatim>\<open>json.dump\<close>, the number under
  \<^verbatim>\<open>total_games\<close> of the metadata is the length of the list under \<^verbatim>\<open>games\<close>.
\<close>

theorem total_games_is_length:
  assumes "JsonDump path data \<in> set (events (script env cfg))"
  shows "\<exists>top meta games.
           data = PDict top \<and>
           map_of top ''metadata'' = Some (PDict meta) \<and>
           map_of top ''games'' = Some (PList games) \<and>
           map_of meta ''total_games'' = Some (PInt (int (length games)))"
  using dump_form [OF assms] by (auto simp: output_data_def)

theorem total_games_is_length_witness:
  "JsonDump (output_file_of (demo_world demo_fetch demo_analyse) default_config)
     (output_data default_config ''2026-02-01T09:30:00'' demo_analysis [game_jan10])
   \<in> set (events (script (demo_world demo_fetch demo_analyse) default_config)) \<and>
   (\<exists>top meta games.
      output_data default_config ''2026-02-01T09:30:00'' demo_analysis [game_jan10] = PDict top \<and>
      map_of top ''metadata'' = Some (PDict meta) \<and>
      map_of top ''games'' = Some (PList games) \<and>
      map_of meta ''total_games'' = Some (PInt (int (length games))))"
  using total_games_is_length [OF demo_dump] demo_dump by blast

subsection \<open>The call of the analysis\<close>

lemma analyses_of_run:
  "filter is_analyze (events (script env cfg)) =
     (case snd (init_services env cfg) of
        Inl e \<Rightarrow> []
      | Inr u \<Rightarrow>
          (case snd (fetch_games env cfg) of
             Inl e \<Rightarrow> []
           | Inr all_games \<Rightarrow>
               if all_games = [] then [] else [Analyze all_games (USERNAME cfg)]))"
proof -
  have save: "filter is_analyze (fst (save_results env cfg ag ma)) = []" for ag ma
    by (simp add: fst_save_results split: sum.splits)
  show ?thesis
    by (simp add: script_events fst_main fst_after_fetch fst_analyse_and_save save
          init_filter fetch_games_filter display_filter split: sum.splits)
qed

lemma fetches_after_loop:
  "filter is_fetch (fst (after_fetch env cfg all_games)) = []"
proof -
  have save: "filter is_fetch (fst (save_results env cfg ag ma)) = []" for ag ma
    by (simp add: fst_save_results split: sum.splits)
  show ?thesis
    by (simp add: fst_after_fetch fst_analyse_and_save save display_filter split: sum.splits)
qed

lemma run_split:
  "\<exists>before after. events (script env cfg) = before @ after \<and>
      filter is_analyze before = [] \<and> filter is_fetch after = []"
proof (cases "snd (init_services env cfg)")
  case (Inl e)
  have "events (script env cfg) = fst (init_services env cfg) @
          (case snd (main env cfg) of
             Inr output_file \<Rightarrow>
               [Print (newline @ ''Success! File saved at: ''
                  @ (case output_file of None \<Rightarrow> ''None'' | Some p \<Rightarrow> p))]
           | Inl e \<Rightarrow> [Print (newline @ cross_mark @ '' Error: '' @ exn_str e), Traceback e])"
    using Inl by (simp add: script_events fst_main)
  moreover have "filter is_fetch (case snd (main env cfg) of
             Inr output_file \<Rightarrow>
               [Print (newline @ ''Success! File saved at: ''
                  @ (case output_file of None \<Rightarrow> ''None'' | Some p \<Rightarrow> p))]
           | Inl e \<Rightarrow> [Print (newline @ cross_mark @ '' Error: '' @ exn_str e), Traceback e]) = []"
    by (simp split: sum.splits)
  ultimately show ?thesis using init_filter(2) by blast
next
  case (Inr u)
  let ?tail = "(case snd (main env cfg) of
             Inr output_file \<Rightarrow>
               [Print (newline @ ''Success! File saved at: ''
                  @ (case output_file of None \<Rightarrow> ''None'' | Some p \<Rightarrow> p))]
           | Inl e \<Rightarrow> [Print (newline @ cross_mark @ '' Error: '' @ exn_str e), Traceback e])"
  let ?rest = "(case snd (fetch_games env cfg) of
                 Inl e \<Rightarrow> []
               | Inr all_games \<Rightarrow> fst (after_fetch env cfg all_games))"
  have "events (script env cfg) =
          (fst (init_services env cfg) @ fst (fetch_games env cfg)) @ (?rest @ ?tail)"
    using Inr by (simp add: script_events fst_main)
  moreover have "filter is_analyze (fst (init_services env cfg) @ fst (fetch_games env cfg)) = []"
    by (simp add: init_filter fetch_games_filter)
  moreover have "filter is_fetch (?rest @ ?tail) = []"
    by (simp add: fetches_after_loop split: sum.splits)
  ultimately show ?thesis by blast
qed

text \<open>
  Claim C6. The calls of the mistake aggregation in a run are: none when the services
  cannot be built, when the fetch phase raises or when it ends with no games; otherwise
  exactly one, with the accumulated list of games and the configured user name. And the
  run splits into a first part without a call of the aggregation and a second part
  without a fetch: the call comes after every fetch.
\<close>

theorem analysis_called_once:
  "filter is_analyze (events (script env cfg)) =
     (case snd (init_services env cfg) of
        Inl e \<Rightarrow> []
      | Inr u \<Rightarrow>
          (case snd (fetch_games env cfg) of
             Inl e \<Rightarrow> []
           | Inr all_games \<Rightarrow>
               if all_games = [] then [] else [Analyze all_games (USERNAME cfg)])) \<and>
   (\<exists>before after. events (script env cfg) = before @ after \<and>
      filter is_analyze before = [] \<and> filter is_fetch after = [])"
  using analyses_of_run [of env cfg] run_split [of env cfg] by blast

theorem analysis_called_once_witness:
  "filter is_analyze (events (script (demo_world demo_fetch demo_analyse) default_config)) =
     [Analyze [game_jan10] ''jay_fh''] \<and>
   filter is_analyze (events (script (demo_world no_games demo_analyse) default_config)) = []"
proof -
  have user: "USERNAME default_config = ''jay_fh''"
    by (simp add: default_config_def)
  from analysis_called_once [of "demo_world demo_fetch demo_analyse" default_config]
  have one: "filter is_analyze (events (script (demo_world demo_fetch demo_analyse) default_config)) =
     [Analyze [game_jan10] ''jay_fh'']"
    by (simp add: demo_init_services demo_fetch_games user)
  from analysis_called_once [of "demo_world no_games demo_analyse" default_config]
  have none: "filter is_analyze (events (script (demo_world no_games demo_analyse) default_config)) = []"
    by (simp add: demo_init_services no_games_fetch_games)
  from one none show ?thesis by simp
qed

subsection \<open>The guard\<close>

lemma guard_catches:
  assumes "snd (main env cfg) = Inl e"
  shows "exit_status (script env cfg) = 1 \<and>
         events (script env cfg) =
           fst (main env cfg) @ [Print (newline @ cross_mark @ '' Error: '' @ exn_str e), Traceback e]"
  using assms by (simp add: script_exit_status script_events)

lemma failing_analysis_fetch_games:
  "snd (fetch_games (demo_world demo_fetch failing_analyse) default_config) = Inr [game_jan10]"
  by code_simp

text \<open>
  Claim C8. When the fetch phase has found games and the analysis raises, or the
  summary after it, or the opening of the output file, or \<^verbatim>\<open>json.dump\<close>, then the run
  ends with the line \<^verbatim>\<open>Error:\<close> and the exception's text, the traceback, and exit
  status 1.
\<close>

theorem unhandled_exception_exit:
  assumes "snd (init_services env cfg) = Inr ()"
    and "snd (fetch_games env cfg) = Inr all_games" and "all_games \<noteq> []"
    and "aggregate_mistake_analysis env all_games (USERNAME cfg) = Inl e \<or>
         (\<exists>ma. aggregate_mistake_analysis env all_games (USERNAME cfg) = Inr ma \<and>
            (snd (display_summary env ma) = Inl e \<or>
             (snd (display_summary env ma) = Inr () \<and>
                (open_w env (output_file_of env cfg) = Inl e \<or>
                 (open_w env (output_file_of env cfg) = Inr () \<and>
                  json_dump env (output_data cfg (now_isoformat env) ma all_games) = Inl e)))))"
  shows "exit_status (script env cfg) = 1 \<and>
         (\<exists>evs. events (script env cfg) =
            evs @ [Print (newline @ cross_mark @ '' Error: '' @ exn_str e), Traceback e])"
proof -
  from assms(4) have "snd (analyse_and_save env cfg all_games) = Inl e"
    by (auto simp: snd_analyse_and_save snd_save_results)
  with assms(1-3) have "snd (main env cfg) = Inl e"
    by (simp add: snd_main snd_after_fetch)
  from guard_catches [OF this] show ?thesis by blast
qed

theorem unhandled_exception_exit_witness:
  "aggregate_mistake_analysis (demo_world demo_fetch failing_analyse) [game_jan10]
     (USERNAME default_config) = Inl (Exn ''RuntimeError'' ''engine process died'') \<and>
   exit_status (script (demo_world demo_fetch failing_analyse) default_config) = 1 \<and>
   (\<exists>evs. events (script (demo_world demo_fetch failing_analyse) default_config) =
      evs @ [Print (newline @ cross_mark @ '' Error: engine process died''),
             Traceback (Exn ''RuntimeError'' ''engine process died'')])"
proof -
  have raised: "aggregate_mistake_analysis (demo_world demo_fetch failing_analyse) [game_jan10]
     (USERNAME default_config) = Inl (Exn ''RuntimeError'' ''engine process died'')"
    by (simp add: demo_world_def failing_analyse_def)
  have games: "[game_jan10] \<noteq> []" by simp
  from unhandled_exception_exit [OF demo_init_services failing_analysis_fetch_games games
    disjI1 [OF raised]] raised
  show ?thesis by simp
qed

subsection \<open>A run that finds no games\<close>

text \<open>
  Claim C1. When the services are built and the fetch phase ends with no games, the run
  prints \<^verbatim>\<open>No games found. Exiting.\<close>, then \<^verbatim>\<open>Success! File saved at: None\<close> as its last
  line, and the exit status is 0.
\<close>

theorem no_games_exit_status:
  assumes "snd (init_services env cfg) = Inr ()" and "snd (fetch_games env cfg) = Inr []"
  shows "exit_status (script env cfg) = 0 \<and>
         Print (newline @ cross_mark @ '' No games found. Exiting.'') \<in> set (events (script env cfg)) \<and>
         last (events (script env cfg)) = Print (newline @ ''Success! File saved at: None'')"
proof -
  from assms have "snd (main env cfg) = Inr None"
    by (simp add: snd_main snd_after_fetch)
  moreover from assms have
    "Print (newline @ cross_mark @ '' No games found. Exiting.'') \<in> set (fst (main env cfg))"
    by (simp add: fst_main fst_after_fetch)
  ultimately show ?thesis
    by (simp add: script_exit_status script_events)
qed

theorem no_games_exit_status_witness:
  "snd (fetch_games (demo_world no_games demo_analyse) default_config) = Inr [] \<and>
   exit_status (script (demo_world no_games demo_analyse) default_config) = 0 \<and>
   last (events (script (demo_world no_games demo_analyse) default_config)) =
     Print (newline @ ''Success! File saved at: None'')"
  using no_games_exit_status [OF demo_init_services no_games_fetch_games] no_games_fetch_games
  by simp


subsection \<open>A month whose fetch raises\<close>

lemma fetch_loop_same_months:
  assumes same: "\<And>current acc. snd (fetch_month env cfg start end current acc) =
                    snd (fetch_month env' cfg start end current acc)"
  shows "snd (fetch_loop env cfg start end current acc) =
         snd (fetch_loop env' cfg start end current acc)"
proof (induction current acc rule: fetch_loop_cases [where env = env and cfg = cfg and start = start and ?end = "end"])
  case (stop current acc)
  then show ?case by (simp add: fetch_loop_stop)
next
  case (raise current acc evs ag e)
  obtain evs2 ag2 where "fetch_month env' cfg start end current acc = (evs2, ag2)"
    by (cases "fetch_month env' cfg start end current acc")
  with raise show ?case by (simp add: fetch_loop_raise)
next
  case (step current acc evs ag c' evs' r)
  obtain evs2 ag2 where fm: "fetch_month env' cfg start end current acc = (evs2, ag2)"
    by (cases "fetch_month env' cfg start end current acc")
  with same [of current acc] step.hyps(2) have "ag2 = ag" by simp
  with fm step show ?case by (simp add: fetch_loop_step)
qed

lemma filter_games_month_without_games:
  "filter_games (month_without_games env u y m) start end games acc =
   filter_games env start end games acc"
  by (induction games arbitrary: acc) (simp_all add: month_without_games_def split: sum.splits)

lemma fetch_month_without_games:
  assumes "get_games_by_month env (USERNAME cfg) y m = Inl e"
  shows "snd (fetch_month env cfg start end current acc) =
         snd (fetch_month (month_without_games env (USERNAME cfg) y m) cfg start end current acc)"
proof (cases "year current = y \<and> month current = m")
  case True
  with assms show ?thesis
    by (simp add: fetch_month_cases filter_games_month_without_games)
       (simp add: month_without_games_def)
next
  case False
  then have "get_games_by_month (month_without_games env (USERNAME cfg) y m) (USERNAME cfg)
               (year current) (month current) =
             get_games_by_month env (USERNAME cfg) (year current) (month current)"
    by (auto simp: month_without_games_def)
  then show ?thesis
    by (simp add: fetch_month_cases filter_games_month_without_games split: sum.splits)
qed

text \<open>
  Claim C2. When the fetch of the current month raises, the \<^verbatim>\<open>try\<close> statement ends
  normally: its events are the call and the line with the cross, the month and the
  exception's text, and \<^verbatim>\<open>all_games\<close> is what it was. The loop then takes the step to the
  next month and goes on from there with the same \<^verbatim>\<open>all_games\<close>. And the result of the
  whole loop, from any month and any list, is the result it has in the world where this
  month's fetch returns no games: the failure costs the games of that month and nothing
  else.
\<close>

theorem fetch_failure_is_not_fatal:
  assumes "get_games_by_month env (USERNAME cfg) (year current) (month current) = Inl e"
  shows "fetch_month env cfg start end current all_games =
           ([Fetch (USERNAME cfg) (year current) (month current),
             Print (month_failed_line current e)], all_games) \<and>
         (dt_le current end \<longrightarrow>
            fetch_loop env cfg start end current all_games =
              (case next_month current of
                 Inl x \<Rightarrow>
                   ([Fetch (USERNAME cfg) (year current) (month current),
                     Print (month_failed_line current e)], Inl x)
               | Inr current' \<Rightarrow>
                   ([Fetch (USERNAME cfg) (year current) (month current),
                     Print (month_failed_line current e)]
                      @ fst (fetch_loop env cfg start end current' all_games),
                    snd (fetch_loop env cfg start end current' all_games)))) \<and>
         snd (fetch_loop env cfg start end c acc) =
           snd (fetch_loop (month_without_games env (USERNAME cfg) (year current) (month current))
                  cfg start end c acc)"
proof (intro conjI impI)
  from assms show fm: "fetch_month env cfg start end current all_games =
           ([Fetch (USERNAME cfg) (year current) (month current),
             Print (month_failed_line current e)], all_games)"
    by (simp add: fetch_month_cases)
  assume le: "dt_le current end"
  show "fetch_loop env cfg start end current all_games =
              (case next_month current of
                 Inl x \<Rightarrow>
                   ([Fetch (USERNAME cfg) (year current) (month current),
                     Print (month_failed_line current e)], Inl x)
               | Inr current' \<Rightarrow>
                   ([Fetch (USERNAME cfg) (year current) (month current),
                     Print (month_failed_line current e)]
                      @ fst (fetch_loop env cfg start end current' all_games),
                    snd (fetch_loop env cfg start end current' all_games)))"
  proof (cases "next_month current")
    case (Inl x)
    with fetch_loop_raise [OF le fm Inl] show ?thesis by simp
  next
    case (Inr current')
    with fetch_loop_step [OF le fm Inr] show ?thesis by simp
  qed
next
  show "snd (fetch_loop env cfg start end c acc) =
           snd (fetch_loop (month_without_games env (USERNAME cfg) (year current) (month current))
                  cfg start end c acc)"
    by (rule fetch_loop_same_months) (rule fetch_month_without_games [OF assms])
qed

theorem fetch_failure_is_not_fatal_witness:
  "get_games_by_month (demo_world failing_fetch demo_analyse) ''jay_fh'' 2026 1 = Inl (Exn ''ConnectionError'' ''chess.com timed out'') \<and>
   fetch_month (demo_world failing_fetch demo_analyse) (default_config\<lparr>END_DATE := ''2026-02-28''\<rparr>)
     \<lparr>year = 2026, month = 1, day = 1, hour = 0, minute = 0, second = 0, microsecond = 0\<rparr>
     \<lparr>year = 2026, month = 2, day = 28, hour = 0, minute = 0, second = 0, microsecond = 0\<rparr>
     \<lparr>year = 2026, month = 1, day = 1, hour = 0, minute = 0, second = 0, microsecond = 0\<rparr> [] =
     ([Fetch ''jay_fh'' 2026 1,
       Print (month_failed_line \<lparr>year = 2026, month = 1, day = 1, hour = 0, minute = 0, second = 0, microsecond = 0\<rparr>
                (Exn ''ConnectionError'' ''chess.com timed out''))], []) \<and>
   snd (fetch_games (demo_world failing_fetch demo_analyse) (default_config\<lparr>END_DATE := ''2026-02-28''\<rparr>)) = Inr [game_feb05]"
proof -
  have failed: "get_games_by_month (demo_world failing_fetch demo_analyse) (USERNAME (default_config\<lparr>END_DATE := ''2026-02-28''\<rparr>))
      (year \<lparr>year = 2026, month = 1, day = 1, hour = 0, minute = 0, second = 0, microsecond = 0\<rparr>)
      (month \<lparr>year = 2026, month = 1, day = 1, hour = 0, minute = 0, second = 0, microsecond = 0\<rparr>) = Inl (Exn ''ConnectionError'' ''chess.com timed out'')"
    by (simp add: demo_world_def failing_fetch_def)
  have run: "snd (fetch_games (demo_world failing_fetch demo_analyse) (default_config\<lparr>END_DATE := ''2026-02-28''\<rparr>)) = Inr [game_feb05]"
    by code_simp
  from fetch_failure_is_not_fatal [where start = "\<lparr>year = 2026, month = 1, day = 1, hour = 0, minute = 0, second = 0, microsecond = 0\<rparr>"
      and ?end = "\<lparr>year = 2026, month = 2, day = 28, hour = 0, minute = 0, second = 0, microsecond = 0\<rparr>"
      and all_games = "[]", OF failed, THEN conjunct1] failed run
  show ?thesis by (simp add: default_config_def)
qed

subsection \<open>Which games are kept\<close>

lemma fetch_games_loop:
  assumes "strptime env (START_DATE cfg) ''%Y-%m-%d'' = Inr start"
    and "strptime env (END_DATE cfg) ''%Y-%m-%d'' = Inr end"
  shows "fetch_games env cfg =
           (Print (newline @ ''2. Fetching games for '' @ USERNAME cfg @ '' from ''
                     @ START_DATE cfg @ '' to '' @ END_DATE cfg @ ''...'')
              # fst (fetch_loop env cfg start end start []),
            snd (fetch_loop env cfg start end start []))"
  using assms
  by (simp add: fetch_games_def parse_range_def bind_io_def then_io_def print_line_def
        pure_io_def return_io_def split: prod.splits sum.splits)

lemma demo_parse:
  "strptime (demo_world demo_fetch demo_analyse) (START_DATE default_config) ''%Y-%m-%d'' =
     Inr \<lparr>year = 2026, month = 1, day = 1, hour = 0, minute = 0, second = 0, microsecond = 0\<rparr>"
  "strptime (demo_world demo_fetch demo_analyse) (END_DATE default_config) ''%Y-%m-%d'' =
     Inr \<lparr>year = 2026, month = 1, day = 31, hour = 0, minute = 0, second = 0, microsecond = 0\<rparr>"
  by code_simp+

lemma demo_game_dates:
  "game_date (demo_world demo_fetch demo_analyse) game_jan10 =
     Inr \<lparr>year = 2026, month = 1, day = 10, hour = 12, minute = 0, second = 0, microsecond = 0\<rparr>"
  "game_date (demo_world demo_fetch demo_analyse) game_no_end_time =
     Inr \<lparr>year = 1970, month = 1, day = 1, hour = 0, minute = 0, second = 0, microsecond = 0\<rparr>"
  "game_date (demo_world demo_fetch demo_analyse) game_jan31 =
     Inr \<lparr>year = 2026, month = 1, day = 31, hour = 18, minute = 0, second = 0, microsecond = 0\<rparr>"
  by code_simp+

lemma demo_fetched:
  "Fetch (USERNAME default_config) 2026 1 \<in> set (fst (fetch_games (demo_world demo_fetch demo_analyse) default_config))"
  by code_simp

text \<open>
  Claim C3, as the code has it. Take a run whose two dates parse and whose loop ends
  normally, a month that the loop fetched, and let the fetch of that month return
  records whose end times all convert to a datetime. Then a record of that month is in
  the accumulated list exactly when its datetime lies between \<^verbatim>\<open>start\<close> and \<^verbatim>\<open>end\<close>,
  both included.
\<close>

theorem included_iff_in_range:
  assumes start: "strptime env (START_DATE cfg) ''%Y-%m-%d'' = Inr start"
    and stop: "strptime env (END_DATE cfg) ''%Y-%m-%d'' = Inr end"
    and run: "fetch_games env cfg = (evs, Inr all_games)"
    and fetched: "Fetch (USERNAME cfg) y m \<in> set evs"
    and games: "get_games_by_month env (USERNAME cfg) y m = Inr games"
    and dated: "\<forall>g \<in> set games. \<exists>d. game_date env g = Inr d"
    and game: "game \<in> set games"
  shows "game \<in> set all_games \<longleftrightarrow> in_range env start end game"
proof -
  from fetch_games_loop [OF start stop] run
  have evs: "evs = Print (newline @ ''2. Fetching games for '' @ USERNAME cfg @ '' from ''
                     @ START_DATE cfg @ '' to '' @ END_DATE cfg @ ''...'')
              # fst (fetch_loop env cfg start end start [])"
    and res: "snd (fetch_loop env cfg start end start []) = Inr all_games"
    by simp_all
  from fetched evs have f: "Fetch (USERNAME cfg) y m \<in> set (fst (fetch_loop env cfg start end start []))"
    by simp
  from dated have "list_all (\<lambda>g. isl (game_date env g) = False) games"
    by (auto simp: list_all_iff)
  then have fg: "filter_games env start end games [] = Inr ([] @ filter (in_range env start end) games)"
    by (rule filter_games_total)
  from fetch_loop_complete [OF games fg f res]
  have complete: "set (filter (in_range env start end) games) \<subseteq> set all_games" by simp
  from fetch_loop_extends [OF res]
  have sound: "list_all (in_range env start end) all_games" by auto
  show ?thesis
  proof
    assume "game \<in> set all_games"
    with sound show "in_range env start end game" by (simp add: list_all_iff)
  next
    assume "in_range env start end game"
    with game complete show "game \<in> set all_games" by auto
  qed
qed

theorem included_iff_in_range_witness:
  "snd (fetch_games (demo_world demo_fetch demo_analyse) default_config) = Inr [game_jan10] \<and>
   in_range (demo_world demo_fetch demo_analyse)
     \<lparr>year = 2026, month = 1, day = 1, hour = 0, minute = 0, second = 0, microsecond = 0\<rparr>
     \<lparr>year = 2026, month = 1, day = 31, hour = 0, minute = 0, second = 0, microsecond = 0\<rparr> game_jan10 \<and>
   \<not> in_range (demo_world demo_fetch demo_analyse)
     \<lparr>year = 2026, month = 1, day = 1, hour = 0, minute = 0, second = 0, microsecond = 0\<rparr>
     \<lparr>year = 2026, month = 1, day = 31, hour = 0, minute = 0, second = 0, microsecond = 0\<rparr> game_jan31"
proof -
  let ?W = "demo_world demo_fetch demo_analyse"
  have run: "fetch_games ?W default_config = (fst (fetch_games ?W default_config), Inr [game_jan10])"
    using demo_fetch_games by (cases "fetch_games ?W default_config") simp
  have games: "get_games_by_month ?W (USERNAME default_config) 2026 1 =
      Inr [game_jan10, game_no_end_time, game_jan31]"
    by (simp add: demo_world_def demo_fetch_def)
  have dated: "\<forall>g \<in> set [game_jan10, game_no_end_time, game_jan31]. \<exists>d. game_date ?W g = Inr d"
    by (simp add: demo_game_dates)
  have "game_jan10 \<in> set [game_jan10] \<longleftrightarrow> in_range ?W
     \<lparr>year = 2026, month = 1, day = 1, hour = 0, minute = 0, second = 0, microsecond = 0\<rparr>
     \<lparr>year = 2026, month = 1, day = 31, hour = 0, minute = 0, second = 0, microsecond = 0\<rparr> game_jan10"
    by (rule included_iff_in_range [OF demo_parse run demo_fetched games dated]) simp
  moreover have "game_jan31 \<in> set [game_jan10] \<longleftrightarrow> in_range ?W
     \<lparr>year = 2026, month = 1, day = 1, hour = 0, minute = 0, second = 0, microsecond = 0\<rparr>
     \<lparr>year = 2026, month = 1, day = 31, hour = 0, minute = 0, second = 0, microsecond = 0\<rparr> game_jan31"
    by (rule included_iff_in_range [OF demo_parse run demo_fetched games dated]) simp
  moreover have "game_jan31 \<noteq> game_jan10"
    by (simp add: game_jan31_def game_jan10_def)
  ultimately show ?thesis using demo_fetch_games by simp
qed

text \<open>
  Claim C3 as it is written fails when another record of the same month cannot be dated:
  the fetch of January 2026 returns a game that ended on 2026-01-10, inside the range
  of the configuration, and a game whose \<^verbatim>\<open>end_time\<close> is a string. The conversion of the
  second raises inside the \<^verbatim>\<open>try\<close>, the month is logged as failed, and the first game is
  not in the accumulated list.
\<close>

theorem included_iff_in_range_counterexample:
  "get_games_by_month (demo_world bad_fetch demo_analyse) ''jay_fh'' 2026 1 =
     Inr [game_jan10, game_bad_end_time] \<and>
   Fetch ''jay_fh'' 2026 1 \<in> set (fst (fetch_games (demo_world bad_fetch demo_analyse) default_config)) \<and>
   in_range (demo_world bad_fetch demo_analyse)
     \<lparr>year = 2026, month = 1, day = 1, hour = 0, minute = 0, second = 0, microsecond = 0\<rparr>
     \<lparr>year = 2026, month = 1, day = 31, hour = 0, minute = 0, second = 0, microsecond = 0\<rparr> game_jan10 \<and>
   snd (fetch_games (demo_world bad_fetch demo_analyse) default_config) = Inr []"
  by code_simp

subsection \<open>A record without an end time\<close>

text \<open>
  Claim C9. A record without the key \<^verbatim>\<open>end_time\<close> is dated as the timestamp 0. When the
  local datetime of the timestamp 0 is in the year 1970 or before (the epoch is
  1970-01-01 00:00 UTC) and the year of the start date is after 1970, the record is not
  in the range, the inner loop passes over it without an exception and without changing
  \<^verbatim>\<open>filtered_games\<close>, and it is in no list the loop ends with.
\<close>

theorem missing_end_time_excluded:
  assumes missing: "map_of game ''end_time'' = None"
    and epoch: "fromtimestamp env (PInt 0) = Inr epoch"
    and y: "year epoch \<le> 1970"
    and after: "1970 < year start"
  shows "game_date env game = Inr epoch \<and>
         \<not> in_range env start end game \<and>
         filter_games env start end (game # games) filtered_games =
           filter_games env start end games filtered_games \<and>
         (\<forall>evs all_games. fetch_loop env cfg start end start [] = (evs, Inr all_games)
            \<longrightarrow> game \<notin> set all_games)"
proof -
  from missing epoch have gd: "game_date env game = Inr epoch"
    by (simp add: game_date_def dict_get_def)
  have nle: "\<not> dt_le start epoch"
    using y after by (simp add: dt_le_def dt_fields_def)
  with gd have out: "\<not> in_range env start end game"
    by (simp add: in_range_def)
  from gd nle have skip: "filter_games env start end (game # games) filtered_games =
           filter_games env start end games filtered_games"
    by (simp add: game_date_def)
  have "game \<notin> set all_games" if "fetch_loop env cfg start end start [] = (evs, Inr all_games)"
    for evs all_games
  proof -
    from that have "snd (fetch_loop env cfg start end start []) = Inr all_games" by simp
    from fetch_loop_extends [OF this] have "list_all (in_range env start end) all_games" by auto
    with out show ?thesis by (auto simp: list_all_iff)
  qed
  with gd out skip show ?thesis by blast
qed

theorem missing_end_time_excluded_witness:
  "map_of game_no_end_time ''end_time'' = None \<and>
   fromtimestamp (demo_world demo_fetch demo_analyse) (PInt 0) =
     Inr \<lparr>year = 1970, month = 1, day = 1, hour = 0, minute = 0, second = 0, microsecond = 0\<rparr> \<and>
   game_date (demo_world demo_fetch demo_analyse) game_no_end_time =
     Inr \<lparr>year = 1970, month = 1, day = 1, hour = 0, minute = 0, second = 0, microsecond = 0\<rparr> \<and>
   \<not> in_range (demo_world demo_fetch demo_analyse)
     \<lparr>year = 2026, month = 1, day = 1, hour = 0, minute = 0, second = 0, microsecond = 0\<rparr>
     \<lparr>year = 2026, month = 1, day = 31, hour = 0, minute = 0, second = 0, microsecond = 0\<rparr> game_no_end_time"
proof -
  have missing: "map_of game_no_end_time ''end_time'' = None"
    by (simp add: game_no_end_time_def)
  have epoch: "fromtimestamp (demo_world demo_fetch demo_analyse) (PInt 0) =
     Inr \<lparr>year = 1970, month = 1, day = 1, hour = 0, minute = 0, second = 0, microsecond = 0\<rparr>"
    by code_simp
  have y: "year \<lparr>year = 1970, month = 1, day = 1, hour = 0, minute = 0, second = 0, microsecond = 0\<rparr> \<le> 1970"
    by simp
  have after: "1970 < year \<lparr>year = 2026, month = 1, day = 1, hour = 0, minute = 0, second = 0, microsecond = 0\<rparr>"
    by simp
  from missing_end_time_excluded [OF missing epoch y after,
    where ?end = "\<lparr>year = 2026, month = 1, day = 31, hour = 0, minute = 0, second = 0, microsecond = 0\<rparr>"]
    missing epoch
  show ?thesis by blast
qed

subsection \<open>The months the loop fetches\<close>

text \<open>
  When the day of the start date is at most 28 and at most the day of the end date (and
  the end year is below 9999), the loop fetches each calendar month from the start
  date's month through the end date's month once, in order, and ends normally.
\<close>

lemma steps_cleanly_le:
  "steps_cleanly end current \<Longrightarrow> dt_le current end \<longleftrightarrow> month_index current \<le> month_index end"
  by (auto simp: steps_cleanly_def midnight_def dt_le_def dt_fields_def month_index_def)

lemma steps_cleanly_next:
  assumes "steps_cleanly end current" and "dt_le current end"
  shows "\<exists>c'. next_month current = Inr c' \<and> steps_cleanly end c' \<and>
           month_index c' = month_index current + 1"
proof -
  from assms(2) have "year current \<le> year end"
    by (auto simp: dt_le_def dt_fields_def)
  with assms(1) show ?thesis
    by (auto simp: steps_cleanly_def midnight_def next_month_def dt_replace_def
          check_date_fields_def days_in_month_def month_index_def)
qed

lemma fetch_month_fetches:
  "filter is_fetch (fst (fetch_month env cfg start end current acc)) =
     [Fetch (USERNAME cfg) (year current) (month current)]"
  by (simp add: fetch_month_cases split: sum.splits)

lemma index_month:
  "1 \<le> month d \<Longrightarrow> month d \<le> 12 \<Longrightarrow>
     month_index d div 12 = year d \<and> month_index d mod 12 + 1 = month d"
  by (auto simp: month_index_def)

lemma fetch_loop_months:
  "steps_cleanly end current \<Longrightarrow>
     filter is_fetch (fst (fetch_loop env cfg start end current acc)) =
       map (\<lambda>i. Fetch (USERNAME cfg) (i div 12) (i mod 12 + 1))
         [month_index current..month_index end] \<and>
     \<not> isl (snd (fetch_loop env cfg start end current acc))"
proof (induction current acc rule: fetch_loop_cases [where env = env and cfg = cfg and start = start and ?end = "end"])
  case (stop current acc)
  then show ?case by (simp add: steps_cleanly_le)
next
  case (raise current acc evs ag e)
  from steps_cleanly_next [OF raise.prems raise.hyps(1)] raise.hyps(3) show ?case by simp
next
  case (step current acc evs ag c' evs' r)
  from steps_cleanly_next [OF step.prems step.hyps(1)] step.hyps(3)
  have c': "steps_cleanly end c'" "month_index c' = month_index current + 1" by simp_all
  from step.prems have m: "1 \<le> month current" "month current \<le> 12"
    by (simp_all add: steps_cleanly_def)
  from step.prems step.hyps(1) have le: "month_index current \<le> month_index end"
    by (simp add: steps_cleanly_le)
  from step.hyps(2) have "filter is_fetch evs = [Fetch (USERNAME cfg) (year current) (month current)]"
    using fetch_month_fetches [of env cfg start "end" current acc] by simp
  with step.IH [OF c'(1)] c'(2) le index_month [OF m] show ?case
    by (simp add: upto_rec1 [of "month_index current"])
qed

text \<open>
  Claim C7 at two date ranges outside that condition. From 2026-01-15 to 2026-02-10 the
  loop fetches January only: after January \<^verbatim>\<open>current\<close> is 2026-02-15, which is after the end date, so
  February is never fetched. From 2026-01-31 to 2026-03-31 the loop fetches January
  and then \<^verbatim>\<open>replace(month=2)\<close> raises \<^verbatim>\<open>ValueError\<close> (there is no 31st of February):
  the run ends with exit status 1.
\<close>

theorem months_not_fetched:
  "filter is_fetch (events (script (demo_world demo_fetch demo_analyse)
      (default_config\<lparr>START_DATE := ''2026-01-15'', END_DATE := ''2026-02-10''\<rparr>))) =
     [Fetch ''jay_fh'' 2026 1] \<and>
   filter is_fetch (events (script (demo_world demo_fetch demo_analyse)
      (default_config\<lparr>START_DATE := ''2026-01-31'', END_DATE := ''2026-03-31''\<rparr>))) =
     [Fetch ''jay_fh'' 2026 1] \<and>
   exit_status (script (demo_world demo_fetch demo_analyse)
      (default_config\<lparr>START_DATE := ''2026-01-31'', END_DATE := ''2026-03-31''\<rparr>)) = 1"
  by code_simp


end
